theory Spec2Isabelle
  imports Complex_Main "HOL-Library.Multiset"
begin

section \<open>Python values\<close>

text \<open>
  The pipeline passes around the values that \<^verbatim>\<open>json.loads\<close> produces: null, booleans,
  integers, floats, strings, lists, and dictionaries with string keys. A dictionary is an
  association list in insertion order; a lookup takes the first binding of a key.

  Floats are idealised as real numbers: rounding, infinities and NaN are outside the
  model. Strings are lists of 8-bit characters, read as the code points below 256.
\<close>

datatype pyval =
    PNone
  | PBool bool
  | PInt int
  | PFloat real
  | PStr string
  | PList "pyval list"
  | PDict "(string \<times> pyval) list"

text \<open>
  Exceptions are values. Only the class of an exception is kept; its message is not
  modelled.
\<close>

datatype exc =
    ValueError | TypeError | KeyError | AttributeError | OverflowError | JSONDecodeError
  | OtherException

section \<open>Strings\<close>

text \<open>
  \<^verbatim>\<open>str.isspace\<close> on the code points below 256: tab to carriage return (9-13), the
  separators 28-31, the space, NEL (133) and the no-break space (160). \<^verbatim>\<open>\s\<close> of the
  \<^verbatim>\<open>re\<close> module matches the same characters, and \<^verbatim>\<open>\d\<close> matches the ASCII digits only
  (no other code point below 256 is a decimal digit).
\<close>

definition py_isspace :: "char \<Rightarrow> bool" where
  "py_isspace c =
     (let n = (of_char c :: nat)
      in (9 \<le> n \<and> n \<le> 13) \<or> (28 \<le> n \<and> n \<le> 32) \<or> n = 133 \<or> n = 160)"

definition py_isdigit :: "char \<Rightarrow> bool" where
  "py_isdigit c = (let n = (of_char c :: nat) in 48 \<le> n \<and> n \<le> 57)"

text \<open>
  \<^verbatim>\<open>str.lower\<close>: the upper-case letters below 256 are A-Z (65-90) and 192-222 without
  the multiplication sign 215; the lower-case form is 32 higher, which sets bit 5.
\<close>

definition py_lower_char :: "char \<Rightarrow> char" where
  "py_lower_char c =
     (let n = (of_char c :: nat)
      in if (65 \<le> n \<and> n \<le> 90) \<or> (192 \<le> n \<and> n \<le> 222 \<and> n \<noteq> 215)
         then (case c of Char b0 b1 b2 b3 b4 b5 b6 b7 \<Rightarrow> Char b0 b1 b2 b3 b4 True b6 b7)
         else c)"

definition py_lower :: "string \<Rightarrow> string" where
  "py_lower s = map py_lower_char s"

definition py_strip :: "string \<Rightarrow> string" where
  "py_strip s = rev (dropWhile py_isspace (rev (dropWhile py_isspace s)))"

fun py_startswith :: "string \<Rightarrow> string \<Rightarrow> bool" where
  "py_startswith s [] = True"
| "py_startswith [] (p # ps) = False"
| "py_startswith (c # cs) (p # ps) = (c = p \<and> py_startswith cs ps)"

text \<open>\<open>py_in sub s\<close> is Python's \<^verbatim>\<open>sub in s\<close> on strings.\<close>

fun py_in :: "string \<Rightarrow> string \<Rightarrow> bool" where
  "py_in sub [] = (sub = [])"
| "py_in sub (c # cs) = (if py_startswith (c # cs) sub then True else py_in sub cs)"

section \<open>Regular expressions\<close>

text \<open>
  The patterns of the source use literals, character classes, alternation, sequence and
  repetition only, so whether a pattern matches is a question about its language.
  Matching is by derivatives; \<open>alt\<close> and \<open>seq\<close> drop the empty language while a
  derivative is built.
\<close>

datatype rx = Nul | Eps | Sym "char \<Rightarrow> bool" | Alt rx rx | Seq rx rx | Star rx

fun nullable :: "rx \<Rightarrow> bool" where
  "nullable Nul = False"
| "nullable Eps = True"
| "nullable (Sym p) = False"
| "nullable (Alt r s) = (nullable r \<or> nullable s)"
| "nullable (Seq r s) = (nullable r \<and> nullable s)"
| "nullable (Star r) = True"

fun alt :: "rx \<Rightarrow> rx \<Rightarrow> rx" where
  "alt Nul s = s"
| "alt r Nul = r"
| "alt r s = Alt r s"

fun seq :: "rx \<Rightarrow> rx \<Rightarrow> rx" where
  "seq Nul s = Nul"
| "seq Eps s = s"
| "seq r s = Seq r s"

fun deriv :: "char \<Rightarrow> rx \<Rightarrow> rx" where
  "deriv c Nul = Nul"
| "deriv c Eps = Nul"
| "deriv c (Sym p) = (if p c then Eps else Nul)"
| "deriv c (Alt r s) = alt (deriv c r) (deriv c s)"
| "deriv c (Seq r s) =
     (if nullable r then alt (seq (deriv c r) s) (deriv c s) else seq (deriv c r) s)"
| "deriv c (Star r) = seq (deriv c r) (Star r)"

text \<open>The whole string is in the language (\<^verbatim>\<open>re.fullmatch\<close>).\<close>

fun rx_fullmatch :: "rx \<Rightarrow> string \<Rightarrow> bool" where
  "rx_fullmatch r [] = nullable r"
| "rx_fullmatch r (c # cs) = rx_fullmatch (deriv c r) cs"

text \<open>Some prefix of the string is in the language (\<^verbatim>\<open>re.match\<close> without anchors).\<close>

fun rx_prefix :: "rx \<Rightarrow> string \<Rightarrow> bool" where
  "rx_prefix Nul s = False"
| "rx_prefix r [] = nullable r"
| "rx_prefix r (c # cs) = (if nullable r then True else rx_prefix (deriv c r) cs)"

text \<open>Some substring is in the language (\<^verbatim>\<open>re.search\<close>): a prefix of some suffix.\<close>

fun re_search :: "rx \<Rightarrow> string \<Rightarrow> bool" where
  "re_search r [] = nullable r"
| "re_search r (c # cs) = (if rx_prefix r (c # cs) then True else re_search r cs)"

text \<open>
  \<^verbatim>\<open>re.match\<close> of a pattern \<^verbatim>\<open>^...$\<close>: the body matches the whole string, or the
  whole string without its last character when that is a newline (\<^verbatim>\<open>$\<close> also matches
  just before a newline that ends the string).
\<close>

definition re_match_anchored :: "rx \<Rightarrow> string \<Rightarrow> bool" where
  "re_match_anchored r s =
     (rx_fullmatch r s \<or> (s \<noteq> [] \<and> last s = CHR 0x0A \<and> rx_fullmatch r (butlast s)))"

text \<open>Pattern syntax. A literal under \<^verbatim>\<open>re.IGNORECASE\<close> compares lower-case forms.\<close>

definition ci_test :: "char \<Rightarrow> char \<Rightarrow> bool" where
  "ci_test c x = (py_lower_char x = py_lower_char c)"

definition not_newline :: "char \<Rightarrow> bool" where
  "not_newline c = (c \<noteq> CHR 0x0A)"

definition char_in :: "string \<Rightarrow> char \<Rightarrow> bool" where
  "char_in cs c = (c \<in> set cs)"

fun rx_seq :: "rx list \<Rightarrow> rx" where
  "rx_seq [] = Eps"
| "rx_seq [r] = r"
| "rx_seq (r # rs) = Seq r (rx_seq rs)"

definition rx_ilit :: "string \<Rightarrow> rx" where
  "rx_ilit s = rx_seq (map (\<lambda>c. Sym (ci_test c)) s)"

definition rx_lit :: "string \<Rightarrow> rx" where
  "rx_lit s = rx_seq (map (\<lambda>c. Sym ((=) c)) s)"

definition rx_plus :: "rx \<Rightarrow> rx" where
  "rx_plus r = Seq r (Star r)"

definition rx_opt :: "rx \<Rightarrow> rx" where
  "rx_opt r = Alt r Eps"

definition rx_s :: rx where
  "rx_s = Sym py_isspace"

definition rx_d :: rx where
  "rx_d = Sym py_isdigit"

definition rx_dot :: rx where
  "rx_dot = Sym not_newline"

section \<open>DocumentClassifier (utils/doc\_classifier.py)\<close>

definition invoice_keywords :: "string list" where
  "invoice_keywords =
     [''invoice'', ''bill to'', ''ship to'', ''subtotal'', ''tax'', ''total due'',
      ''invoice number'', ''invoice date'', ''due date'', ''remit to'',
      ''item'', ''description'', ''quantity'', ''rate'', ''amount'']"

definition bill_keywords :: "string list" where
  "bill_keywords =
     [''statement'', ''account number'', ''billing period'', ''previous balance'',
      ''payment due'', ''current charges'', ''service period'', ''usage'',
      ''meter reading'', ''kilowatt'', ''gallons'', ''minutes'']"

definition prescription_keywords :: "string list" where
  "prescription_keywords =
     [''prescription'', ''rx'', ''medication'', ''prescriber'', ''pharmacy'',
      ''patient'', ''dosage'', ''instructions'', ''refill'', ''ndc'',
      ''generic'', ''brand'', ''tablet'', ''capsule'', ''mg'', ''ml'']"

text \<open>
  \<^verbatim>\<open>
  def _count_keywords(self, text, keywords):
      count = 0
      for keyword in keywords:
          if keyword in text:
              count += 1
      return count
  \<close>
\<close>

fun count_keywords :: "string \<Rightarrow> string list \<Rightarrow> nat" where
  "count_keywords text [] = 0"
| "count_keywords text (keyword # keywords) =
     (if py_in keyword text then 1 else 0) + count_keywords text keywords"

text \<open>
  The pattern table of \<^verbatim>\<open>_pattern_matching\<close>, in the source's order:
  \<^verbatim>\<open>
  'invoice':      invoice\s*#?\s*\d+   invoice\s*number   bill\s*to:   subtotal.*\$
                  tax.*\$.*total.*\$
  'bill':         account\s*#?\s*\d+   statement\s*date   billing\s*period
                  previous\s*balance.*\$   payment\s*due.*\$
  'prescription': rx\s*#?\s*\d+   prescription\s*#?\s*\d+   \d+\s*mg\s*tablet
                  take\s*\d+.*daily   refill.*\d+
  \<close>
\<close>

definition invoice_patterns :: "rx list" where
  "invoice_patterns =
     [rx_seq [rx_ilit ''invoice'', Star rx_s, rx_opt (rx_ilit ''#''), Star rx_s, rx_plus rx_d],
      rx_seq [rx_ilit ''invoice'', Star rx_s, rx_ilit ''number''],
      rx_seq [rx_ilit ''bill'', Star rx_s, rx_ilit ''to:''],
      rx_seq [rx_ilit ''subtotal'', Star rx_dot, rx_ilit ''$''],
      rx_seq [rx_ilit ''tax'', Star rx_dot, rx_ilit ''$'', Star rx_dot, rx_ilit ''total'',
              Star rx_dot, rx_ilit ''$'']]"

definition bill_patterns :: "rx list" where
  "bill_patterns =
     [rx_seq [rx_ilit ''account'', Star rx_s, rx_opt (rx_ilit ''#''), Star rx_s, rx_plus rx_d],
      rx_seq [rx_ilit ''statement'', Star rx_s, rx_ilit ''date''],
      rx_seq [rx_ilit ''billing'', Star rx_s, rx_ilit ''period''],
      rx_seq [rx_ilit ''previous'', Star rx_s, rx_ilit ''balance'', Star rx_dot, rx_ilit ''$''],
      rx_seq [rx_ilit ''payment'', Star rx_s, rx_ilit ''due'', Star rx_dot, rx_ilit ''$'']]"

definition prescription_patterns :: "rx list" where
  "prescription_patterns =
     [rx_seq [rx_ilit ''rx'', Star rx_s, rx_opt (rx_ilit ''#''), Star rx_s, rx_plus rx_d],
      rx_seq [rx_ilit ''prescription'', Star rx_s, rx_opt (rx_ilit ''#''), Star rx_s,
              rx_plus rx_d],
      rx_seq [rx_plus rx_d, Star rx_s, rx_ilit ''mg'', Star rx_s, rx_ilit ''tablet''],
      rx_seq [rx_ilit ''take'', Star rx_s, rx_plus rx_d, Star rx_dot, rx_ilit ''daily''],
      rx_seq [rx_ilit ''refill'', Star rx_dot, rx_plus rx_d]]"

text \<open>
  \<^verbatim>\<open>
  for doc_type, pattern_list in patterns.items():
      score = 0
      for pattern in pattern_list:
          if re.search(pattern, text, re.IGNORECASE):
              score += 2
      scores[doc_type] = score
  \<close>
\<close>

fun pattern_score :: "string \<Rightarrow> rx list \<Rightarrow> nat" where
  "pattern_score text [] = 0"
| "pattern_score text (pattern # pattern_list) =
     (if re_search pattern text then 2 else 0) + pattern_score text pattern_list"

definition pattern_matching :: "string \<Rightarrow> (string \<times> nat) list" where
  "pattern_matching text =
     [(''invoice'', pattern_score text invoice_patterns),
      (''bill'', pattern_score text bill_patterns),
      (''prescription'', pattern_score text prescription_patterns)]"

text \<open>\<^verbatim>\<open>d.get(key, 0)\<close> on a dictionary of scores.\<close>

definition score_get :: "(string \<times> nat) list \<Rightarrow> string \<Rightarrow> nat" where
  "score_get d key = (case map_of d key of Some v \<Rightarrow> v | None \<Rightarrow> 0)"

text \<open>
  \<^verbatim>\<open>max(scores, key=scores.get)\<close>: the first key, in the dictionary's order, whose score
  no other key exceeds. \<open>max_key best rest\<close> walks the rest of the items with the best
  item so far; a later item replaces it only with a strictly greater score.
\<close>

fun max_key :: "string \<times> nat \<Rightarrow> (string \<times> nat) list \<Rightarrow> string \<times> nat" where
  "max_key best [] = best"
| "max_key best (x # xs) = max_key (if snd best < snd x then x else best) xs"

text \<open>
  \<^verbatim>\<open>
  def classify_by_heuristics(self, text):
      text_lower = text.lower()
      invoice_score = self._count_keywords(text_lower, self.invoice_keywords)
      ...
      pattern_scores = self._pattern_matching(text_lower)
      invoice_total = invoice_score + pattern_scores.get('invoice', 0)
      ...
      scores = {'invoice': invoice_total, 'bill': bill_total,
                'prescription': prescription_total}
      max_type = max(scores, key=scores.get)
      max_score = scores[max_type]
      sorted_scores = sorted(scores.values(), reverse=True)
      if max_score == 0:
          return None, 0.0
      if len(sorted_scores) > 1 and sorted_scores[1] > 0:
          confidence = min(0.95, max_score / (max_score + sorted_scores[1]))
      else:
          confidence = min(0.9, max_score / 10.0)
      if confidence < 0.6:
          return None, confidence
      return max_type, confidence
  \<close>
  The scores are small natural numbers, so the quotients and their comparisons with
  0.6 and 0.7 come out the same in floating point as in the reals.
\<close>

definition classify_by_heuristics :: "string \<Rightarrow> string option \<times> real" where
  "classify_by_heuristics text =
     (let text_lower = py_lower text;
          invoice_score = count_keywords text_lower invoice_keywords;
          bill_score = count_keywords text_lower bill_keywords;
          prescription_score = count_keywords text_lower prescription_keywords;
          pattern_scores = pattern_matching text_lower;
          invoice_total = invoice_score + score_get pattern_scores ''invoice'';
          bill_total = bill_score + score_get pattern_scores ''bill'';
          prescription_total = prescription_score + score_get pattern_scores ''prescription'';
          max_item = max_key (''invoice'', invoice_total)
                       [(''bill'', bill_total), (''prescription'', prescription_total)];
          max_type = fst max_item;
          max_score = snd max_item;
          sorted_scores = rev (sort [invoice_total, bill_total, prescription_total])
      in if max_score = 0 then (None, 0)
         else
           let confidence =
                 (if length sorted_scores > 1 \<and> sorted_scores ! 1 > 0
                  then min 0.95 (real max_score / real (max_score + sorted_scores ! 1))
                  else min 0.9 (real max_score / 10))
           in if confidence < 0.6 then (None, confidence) else (Some max_type, confidence))"

text \<open>
  The model-service collaborator of the classifier is any object with a method
  \<^verbatim>\<open>call_gemini(prompt, max_tokens)\<close>: here a function that raises or returns a
  Python value. A prompt of \<^verbatim>\<open>PromptTemplates\<close> is a fixed template around its
  arguments; only the arguments are kept (for the classification prompt,
  \<^verbatim>\<open>text[:2000]\<close>). Logging and timing are not modelled: the decorator
  \<^verbatim>\<open>@timer(logger)\<close> returns what the function returns and re-raises what it raises.
\<close>

datatype prompt =
    ClassificationPrompt string
  | SelfConsistencyPrompt nat string string pyval
  | ConfidencePrompt string pyval string
  | ValidationPrompt pyval "string list"

type_synonym gemini_extractor = "prompt \<Rightarrow> nat \<Rightarrow> exc + pyval"

definition get_classification_prompt :: "string \<Rightarrow> prompt" where
  "get_classification_prompt text = ClassificationPrompt (take 2000 text)"

text \<open>\<^verbatim>\<open>response.get(key, default)\<close>: only a dictionary has the method.\<close>

definition py_get :: "pyval \<Rightarrow> string \<Rightarrow> pyval \<Rightarrow> exc + pyval" where
  "py_get obj key dflt =
     (case obj of
        PDict d \<Rightarrow> (case map_of d key of Some v \<Rightarrow> Inr v | None \<Rightarrow> Inr dflt)
      | _ \<Rightarrow> Inl AttributeError)"

definition valid_types :: "string list" where
  "valid_types = [''invoice'', ''bill'', ''prescription'']"

text \<open>
  \<^verbatim>\<open>
  def classify_with_gemini(self, text, gemini_extractor):
      try:
          prompt = PromptTemplates.get_classification_prompt(text)
          response = gemini_extractor.call_gemini(prompt, max_tokens=10)
          classification = response.get('text', '').strip().lower()
          valid_types = ['invoice', 'bill', 'prescription']
          if classification in valid_types:
              confidence = 0.75
              return classification, confidence
          else:
              return 'invoice', 0.5
      except Exception as e:
          return 'invoice', 0.3
  \<close>
  \<^verbatim>\<open>.strip()\<close> on a value that is not a string raises AttributeError, which the
  handler catches like every other exception.
\<close>

definition classify_with_gemini :: "string \<Rightarrow> gemini_extractor \<Rightarrow> string \<times> real" where
  "classify_with_gemini text gemini_extractor =
     (case gemini_extractor (get_classification_prompt text) 10 of
        Inl e \<Rightarrow> (''invoice'', 0.3)
      | Inr response \<Rightarrow>
          (case py_get response ''text'' (PStr []) of
             Inl e \<Rightarrow> (''invoice'', 0.3)
           | Inr (PStr s) \<Rightarrow>
               (let classification = py_lower (py_strip s)
                in if classification \<in> set valid_types then (classification, 0.75)
                   else (''invoice'', 0.5))
           | Inr _ \<Rightarrow> (''invoice'', 0.3)))"

text \<open>
  \<^verbatim>\<open>
  def classify(self, text, gemini_extractor=None):
      doc_type, confidence = self.classify_by_heuristics(text)
      if doc_type and confidence > 0.7:
          return doc_type, confidence
      if gemini_extractor and confidence < 0.7:
          try:
              gemini_type, gemini_confidence = self.classify_with_gemini(text, gemini_extractor)
              if gemini_confidence > confidence:
                  return gemini_type, gemini_confidence
          except Exception as e:
              logger.log_error("gemini_fallback", e)
      if doc_type:
          return doc_type, confidence
      else:
          return 'invoice', 0.3
  \<close>
  The collaborator is optional (\<open>None\<close> when it is not supplied). The result carries,
  beside the returned pair, the prompts sent to the model service, in order: the
  effect of \<open>classify\<close> on its collaborator. A returned document type is an
  \<open>option\<close>, as \<^verbatim>\<open>doc_type\<close> is in the source; \<^verbatim>\<open>if doc_type\<close> is false for
  \<^verbatim>\<open>None\<close> and for the empty string. \<open>classify_with_gemini\<close> raises nothing, so the
  handler around it is never entered.
\<close>

definition truthy_type :: "string option \<Rightarrow> bool" where
  "truthy_type doc_type = (case doc_type of None \<Rightarrow> False | Some t \<Rightarrow> t \<noteq> [])"

definition classify ::
    "string \<Rightarrow> gemini_extractor option \<Rightarrow> (string option \<times> real) \<times> prompt list" where
  "classify text gemini_extractor =
     (let (doc_type, confidence) = classify_by_heuristics text;
          fallback = (if truthy_type doc_type then (doc_type, confidence)
                      else (Some ''invoice'', 0.3))
      in if truthy_type doc_type \<and> confidence > 0.7 then ((doc_type, confidence), [])
         else
           (case gemini_extractor of
              Some ge \<Rightarrow>
                if confidence < 0.7
                then (let (gemini_type, gemini_confidence) = classify_with_gemini text ge;
                          asked = [get_classification_prompt text]
                      in if gemini_confidence > confidence
                         then ((Some gemini_type, gemini_confidence), asked)
                         else (fallback, asked))
                else (fallback, [])
            | None \<Rightarrow> (fallback, [])))"

text \<open>A collaborator that answers every prompt with the same response text.\<close>

definition answers :: "string \<Rightarrow> gemini_extractor" where
  "answers s = (\<lambda>p n. Inr (PDict [(''text'', PStr s)]))"

section \<open>GeminiExtractor (utils/extractor.py)\<close>

subsection \<open>The model service\<close>

text \<open>
  \<^verbatim>\<open>self.model.generate_content\<close> is the external service. A call raises (with a
  message) or returns a response whose text may be missing. The service has no memory the
  pipeline can see, but it may answer the same prompt differently each time, so it is a
  function of the number of the call as well as of the prompt and the token limit.
  \<^verbatim>\<open>
  def call_gemini(self, prompt, max_tokens=None):
      try:
          ...
          response = self.model.generate_content(prompt, generation_config=gen_config)
          response_text = response.text if response.text else ""
          ...
          return {'text': response_text, 'latency': ..., ...}
      except Exception as e:
          return {'text': '', 'error': str(e), 'latency': ..., ...}
  \<close>
  Of the returned dictionary the keys \<^verbatim>\<open>text\<close> and \<^verbatim>\<open>error\<close> are kept; \<^verbatim>\<open>error\<close> is
  present exactly when the service raised.
\<close>

datatype api_result = ApiRaises string | ApiText "string option"

type_synonym api = "nat \<Rightarrow> prompt \<Rightarrow> nat option \<Rightarrow> api_result"

record gemini_response =
  resp_text :: string
  resp_error :: "string option"

definition call_gemini :: "api \<Rightarrow> nat \<Rightarrow> prompt \<Rightarrow> nat option \<Rightarrow> gemini_response" where
  "call_gemini model k prompt max_tokens =
     (case model k prompt max_tokens of
        ApiRaises msg \<Rightarrow> \<lparr>resp_text = [], resp_error = Some msg\<rparr>
      | ApiText t \<Rightarrow>
          \<lparr>resp_text = (case t of None \<Rightarrow> [] | Some response_text \<Rightarrow> response_text),
           resp_error = None\<rparr>)"

text \<open>
  \<^verbatim>\<open>json.loads\<close> is a parameter \<open>json_loads\<close> of the functions below: it returns a
  value, raises \<open>JSONDecodeError\<close>, or raises something else (a \<^verbatim>\<open>RecursionError\<close> on
  deep nesting).
\<close>

type_synonym json_parser = "string \<Rightarrow> exc + pyval"

subsection \<open>\_extract\_json\_from\_text\<close>

text \<open>
  \<^verbatim>\<open>
  json_match = re.search(r'\{.*\}', text, re.DOTALL)
  if json_match: return json_match.group(0)
  array_match = re.search(r'\[.*\]', text, re.DOTALL)
  if array_match: return array_match.group(0)
  return None
  \<close>
  With \<^verbatim>\<open>re.DOTALL\<close> the greedy \<^verbatim>\<open>.*\<close> runs to the last closing delimiter: the match
  is the text from the first opening delimiter to the last closing one after it.
\<close>

definition greedy_between :: "char \<Rightarrow> char \<Rightarrow> string \<Rightarrow> string option" where
  "greedy_between l r s =
     (let t = dropWhile (\<lambda>c. c \<noteq> l) s;
          u = dropWhile (\<lambda>c. c \<noteq> r) (rev t)
      in if t = [] \<or> u = [] then None else Some (rev u))"

definition extract_json_from_text :: "string \<Rightarrow> string option" where
  "extract_json_from_text text =
     (case greedy_between CHR ''{'' CHR ''}'' text of
        Some json_match \<Rightarrow> Some json_match
      | None \<Rightarrow> greedy_between CHR ''['' CHR '']'' text)"

subsection \<open>self\_consistency\_extraction\<close>

text \<open>
  An entry of the attempt log is a dictionary with the keys \<^verbatim>\<open>attempt\<close> and
  \<^verbatim>\<open>success\<close> and, depending on the outcome, \<^verbatim>\<open>data\<close>, \<^verbatim>\<open>error\<close>, \<^verbatim>\<open>warning\<close>. The
  result is a dictionary too; a key that a dictionary does not have is \<open>None\<close> in the
  record. \<^verbatim>\<open>'data': None\<close> of the failure result is the value \<open>PNone\<close>.
\<close>

record attempt =
  att_data :: "pyval option"
  att_attempt :: nat
  att_success :: bool
  att_error :: "string option"
  att_warning :: "string option"

record sc_result =
  sc_data :: pyval
  sc_success :: bool
  sc_error :: "string option"
  sc_results :: "attempt list"
  consistency_rate :: "real option"
  successful_attempts :: "nat option"
  total_attempts :: "int option"

definition get_self_consistency_prompt :: "string \<Rightarrow> string \<Rightarrow> pyval \<Rightarrow> nat \<Rightarrow> prompt" where
  "get_self_consistency_prompt text doc_type schema attempt =
     SelfConsistencyPrompt (attempt mod 4) text doc_type schema"

definition failed_attempt :: "string \<Rightarrow> nat \<Rightarrow> attempt" where
  "failed_attempt err i =
     \<lparr>att_data = None, att_attempt = i + 1, att_success = False, att_error = Some err,
      att_warning = None\<rparr>"

text \<open>
  The body of the loop for the index \<open>i\<close>, returning the entry it appends:
  \<^verbatim>\<open>
  prompt = PromptTemplates.get_self_consistency_prompt(text, doc_type, schema, i)
  response = self.call_gemini(prompt)
  if 'error' not in response:
      try:
          data = json.loads(response['text'])
          results.append({'data': data, 'attempt': i + 1, 'success': True})
      except json.JSONDecodeError:
          cleaned_json = self._extract_json_from_text(response['text'])
          if cleaned_json:
              try:
                  data = json.loads(cleaned_json)
                  results.append({'data': data, 'attempt': i + 1, 'success': True,
                                  'warning': 'Cleaned JSON'})
              except:
                  results.append({'error': 'JSON parsing failed', 'attempt': i + 1,
                                  'success': False})
          else:
              results.append({'error': 'JSON parsing failed', 'attempt': i + 1,
                              'success': False})
  else:
      results.append({'error': response['error'], 'attempt': i + 1, 'success': False})
  \<close>
  An exception of the first \<^verbatim>\<open>json.loads\<close> other than \<open>JSONDecodeError\<close> is not
  caught: it leaves the loop and the function.
\<close>

definition extraction_attempt ::
    "api \<Rightarrow> json_parser \<Rightarrow> string \<Rightarrow> string \<Rightarrow> pyval \<Rightarrow> nat \<Rightarrow> exc + attempt" where
  "extraction_attempt model json_loads text doc_type schema i =
     (let prompt = get_self_consistency_prompt text doc_type schema i;
          response = call_gemini model i prompt None
      in case resp_error response of
           None \<Rightarrow>
             (case json_loads (resp_text response) of
                Inr data \<Rightarrow>
                  Inr \<lparr>att_data = Some data, att_attempt = i + 1, att_success = True,
                       att_error = None, att_warning = None\<rparr>
              | Inl JSONDecodeError \<Rightarrow>
                  (case extract_json_from_text (resp_text response) of
                     Some cleaned_json \<Rightarrow>
                       (case json_loads cleaned_json of
                          Inr data \<Rightarrow>
                            Inr \<lparr>att_data = Some data, att_attempt = i + 1,
                                 att_success = True, att_error = None,
                                 att_warning = Some ''Cleaned JSON''\<rparr>
                        | Inl e \<Rightarrow> Inr (failed_attempt ''JSON parsing failed'' i))
                   | None \<Rightarrow> Inr (failed_attempt ''JSON parsing failed'' i))
              | Inl e \<Rightarrow> Inl e)
         | Some err \<Rightarrow> Inr (failed_attempt err i))"

text \<open>The loop \<^verbatim>\<open>for i in range(num_runs)\<close> over the indices still to run.\<close>

fun run_attempts ::
    "api \<Rightarrow> json_parser \<Rightarrow> string \<Rightarrow> string \<Rightarrow> pyval \<Rightarrow> nat list \<Rightarrow> attempt list
     \<Rightarrow> exc + attempt list" where
  "run_attempts model json_loads text doc_type schema [] results = Inr results"
| "run_attempts model json_loads text doc_type schema (i # rest) results =
     (case extraction_attempt model json_loads text doc_type schema i of
        Inl e \<Rightarrow> Inl e
      | Inr entry \<Rightarrow>
          run_attempts model json_loads text doc_type schema rest (results @ [entry]))"

text \<open>
  \<^verbatim>\<open>
  def self_consistency_extraction(self, text, doc_type, schema, num_runs=None):
      num_runs = num_runs or config.SELF_CONSISTENCY_RUNS
      results = []
      for i in range(num_runs): ...
      successful_results = [r for r in results if r['success']]
      if not successful_results:
          return {'data': None, 'success': False,
                  'error': 'All extraction attempts failed', 'results': results}
      consensus_data = successful_results[0]['data']
      consistency_rate = len(successful_results) / num_runs
      return {'data': consensus_data, 'success': True,
              'consistency_rate': consistency_rate,
              'successful_attempts': len(successful_results),
              'total_attempts': num_runs, 'results': results}
  \<close>
  \<open>config_runs\<close> is \<^verbatim>\<open>config.SELF_CONSISTENCY_RUNS\<close> (3 unless the environment sets
  it). \<^verbatim>\<open>num_runs or ...\<close> takes the configured count when \<^verbatim>\<open>num_runs\<close> is \<^verbatim>\<open>None\<close>
  or 0; \<^verbatim>\<open>range\<close> of a negative count is empty.
\<close>

definition effective_runs :: "int \<Rightarrow> int option \<Rightarrow> int" where
  "effective_runs config_runs num_runs =
     (case num_runs of None \<Rightarrow> config_runs | Some n \<Rightarrow> if n = 0 then config_runs else n)"

definition self_consistency_extraction ::
    "api \<Rightarrow> json_parser \<Rightarrow> int \<Rightarrow> string \<Rightarrow> string \<Rightarrow> pyval \<Rightarrow> int option
     \<Rightarrow> exc + sc_result" where
  "self_consistency_extraction model json_loads config_runs text doc_type schema num_runs0 =
     (let num_runs = effective_runs config_runs num_runs0
      in case run_attempts model json_loads text doc_type schema [0..<nat num_runs] [] of
           Inl e \<Rightarrow> Inl e
         | Inr results \<Rightarrow>
             (let successful_results = filter att_success results
              in if successful_results = []
                 then Inr \<lparr>sc_data = PNone, sc_success = False,
                           sc_error = Some ''All extraction attempts failed'',
                           sc_results = results, consistency_rate = None,
                           successful_attempts = None, total_attempts = None\<rparr>
                 else Inr \<lparr>sc_data = (case att_data (hd successful_results) of
                                        Some data \<Rightarrow> data | None \<Rightarrow> PNone),
                           sc_success = True, sc_error = None, sc_results = results,
                           consistency_rate =
                             Some (real (length successful_results) / real_of_int num_runs),
                           successful_attempts = Some (length successful_results),
                           total_attempts = Some num_runs\<rparr>))"

text \<open>
  The failures of an attempt that the body of the loop handles, read off its branches:
  the service raised (\<^verbatim>\<open>'error' in response\<close>), or \<^verbatim>\<open>json.loads\<close> of the response raised
  \<open>JSONDecodeError\<close> and either nothing could be salvaged from the text or
  \<^verbatim>\<open>json.loads\<close> of the salvaged text raised (anything: the inner \<^verbatim>\<open>except:\<close> is bare).
\<close>

definition handled_failure ::
    "api \<Rightarrow> json_parser \<Rightarrow> string \<Rightarrow> string \<Rightarrow> pyval \<Rightarrow> nat \<Rightarrow> bool" where
  "handled_failure model json_loads text doc_type schema i =
     (let response =
            call_gemini model i (get_self_consistency_prompt text doc_type schema i) None
      in resp_error response \<noteq> None
         \<or> (json_loads (resp_text response) = Inl JSONDecodeError
            \<and> (case extract_json_from_text (resp_text response) of
                  None \<Rightarrow> True
                | Some cleaned_json \<Rightarrow> isl (json_loads cleaned_json))))"

subsection \<open>assess\_confidence and its default scores\<close>

text \<open>
  A dictionary of scores is an association list; \<^verbatim>\<open>scores[key] = value\<close> replaces the
  value of a key that is present and appends the item otherwise.
\<close>

fun dict_set :: "(string \<times> 'v) list \<Rightarrow> string \<Rightarrow> 'v \<Rightarrow> (string \<times> 'v) list" where
  "dict_set [] key v = [(key, v)]"
| "dict_set ((k, w) # rest) key v =
     (if k = key then (k, v) # rest else (k, w) # dict_set rest key v)"

text \<open>\<^verbatim>\<open>str(i)\<close> of an index: its decimal digits.\<close>

definition digit_char :: "nat \<Rightarrow> char" where
  "digit_char d = ''0123456789'' ! d"

fun str_nat :: "nat \<Rightarrow> string" where
  "str_nat n = (if n < 10 then [digit_char n] else str_nat (n div 10) @ [digit_char (n mod 10)])"

definition is_container :: "pyval \<Rightarrow> bool" where
  "is_container v = (case v of PDict items \<Rightarrow> True | PList elems \<Rightarrow> True | _ \<Rightarrow> False)"

text \<open>
  \<^verbatim>\<open>
  def _default_confidence_scores(self, data):
      """Generate default confidence scores for all fields."""
      scores = {}
      def add_scores(obj, prefix=""):
          if isinstance(obj, dict):
              for key, value in obj.items():
                  field_path = f"{prefix}.{key}" if prefix else key
                  if isinstance(value, (dict, list)):
                      add_scores(value, field_path)
                  else:
                      scores[field_path] = 0.5
          elif isinstance(obj, list):
              for i, item in enumerate(obj):
                  if isinstance(item, (dict, list)):
                      add_scores(item, f"{prefix}.{i}")
      add_scores(data)
      return scores
  \<close>
  \<open>add_scores_items\<close> and \<open>add_scores_elems\<close> are the two loops; the dictionary
  \<open>scores\<close> is passed through.
\<close>

fun add_scores :: "pyval \<Rightarrow> string \<Rightarrow> (string \<times> real) list \<Rightarrow> (string \<times> real) list"
  and add_scores_items ::
    "(string \<times> pyval) list \<Rightarrow> string \<Rightarrow> (string \<times> real) list \<Rightarrow> (string \<times> real) list"
  and add_scores_elems ::
    "pyval list \<Rightarrow> nat \<Rightarrow> string \<Rightarrow> (string \<times> real) list \<Rightarrow> (string \<times> real) list" where
  "add_scores (PDict items) prefix scores = add_scores_items items prefix scores"
| "add_scores (PList elems) prefix scores = add_scores_elems elems 0 prefix scores"
| "add_scores PNone prefix scores = scores"
| "add_scores (PBool b) prefix scores = scores"
| "add_scores (PInt i) prefix scores = scores"
| "add_scores (PFloat x) prefix scores = scores"
| "add_scores (PStr s) prefix scores = scores"
| "add_scores_items [] prefix scores = scores"
| "add_scores_items ((key, v) # rest) prefix scores =
     (let field_path = (if prefix \<noteq> [] then prefix @ ''.'' @ key else key)
      in add_scores_items rest prefix
           (if is_container v then add_scores v field_path scores
            else dict_set scores field_path 0.5))"
| "add_scores_elems [] i prefix scores = scores"
| "add_scores_elems (item # rest) i prefix scores =
     add_scores_elems rest (i + 1) prefix
       (if is_container item then add_scores item (prefix @ ''.'' @ str_nat i) scores
        else scores)"

definition default_confidence_scores :: "pyval \<Rightarrow> (string \<times> real) list" where
  "default_confidence_scores data = add_scores data [] []"

text \<open>
  \<^verbatim>\<open>
  for field, score in confidence_scores.items():
      if isinstance(score, (int, float)) and 0 <= score <= 1:
          validated_scores[field] = float(score)
      else:
          validated_scores[field] = 0.5
  \<close>
  A Python \<^verbatim>\<open>bool\<close> is an \<^verbatim>\<open>int\<close>.
\<close>

definition unit_score :: "pyval \<Rightarrow> real" where
  "unit_score score =
     (case score of
        PInt i \<Rightarrow> if 0 \<le> i \<and> i \<le> 1 then real_of_int i else 0.5
      | PFloat x \<Rightarrow> if 0 \<le> x \<and> x \<le> 1 then x else 0.5
      | PBool b \<Rightarrow> if b then 1 else 0
      | _ \<Rightarrow> 0.5)"

fun validate_scores :: "(string \<times> pyval) list \<Rightarrow> (string \<times> real) list \<Rightarrow> (string \<times> real) list"
  where
  "validate_scores [] validated_scores = validated_scores"
| "validate_scores ((field, score) # rest) validated_scores =
     validate_scores rest (dict_set validated_scores field (unit_score score))"

text \<open>
  \<^verbatim>\<open>
  def assess_confidence(self, text, extracted_data, doc_type):
      try:
          prompt = PromptTemplates.get_confidence_prompt(text, extracted_data, doc_type)
          response = self.call_gemini(prompt, max_tokens=512)
          if 'error' in response:
              return self._default_confidence_scores(extracted_data)
          try:
              response_text = response['text'].strip()
              if not response_text:
                  return self._default_confidence_scores(extracted_data)
              confidence_scores = json.loads(response_text)
              validated_scores = {}
              for field, score in confidence_scores.items(): ...
              return validated_scores
          except json.JSONDecodeError as e:
              return self._default_confidence_scores(extracted_data)
      except Exception as e:
          return self._default_confidence_scores(extracted_data)
  \<close>
  \<open>assess_confidence_body\<close> is the body of the outer \<^verbatim>\<open>try\<close>; \<^verbatim>\<open>.items()\<close> of a parsed
  value that is not a dictionary raises AttributeError.
\<close>

definition get_confidence_prompt :: "string \<Rightarrow> pyval \<Rightarrow> string \<Rightarrow> prompt" where
  "get_confidence_prompt text extracted_data doc_type =
     ConfidencePrompt (take 1500 text) extracted_data doc_type"

definition assess_confidence_body ::
    "api \<Rightarrow> json_parser \<Rightarrow> string \<Rightarrow> pyval \<Rightarrow> string \<Rightarrow> exc + (string \<times> real) list" where
  "assess_confidence_body model json_loads text extracted_data doc_type =
     (let prompt = get_confidence_prompt text extracted_data doc_type;
          response = call_gemini model 0 prompt (Some 512)
      in if resp_error response \<noteq> None then Inr (default_confidence_scores extracted_data)
         else
           let response_text = py_strip (resp_text response)
           in if response_text = [] then Inr (default_confidence_scores extracted_data)
              else
                (case json_loads response_text of
                   Inl JSONDecodeError \<Rightarrow> Inr (default_confidence_scores extracted_data)
                 | Inl e \<Rightarrow> Inl e
                 | Inr (PDict confidence_scores) \<Rightarrow> Inr (validate_scores confidence_scores [])
                 | Inr _ \<Rightarrow> Inl AttributeError))"

definition assess_confidence ::
    "api \<Rightarrow> json_parser \<Rightarrow> string \<Rightarrow> pyval \<Rightarrow> string \<Rightarrow> exc + (string \<times> real) list" where
  "assess_confidence model json_loads text extracted_data doc_type =
     (case assess_confidence_body model json_loads text extracted_data doc_type of
        Inl e \<Rightarrow> Inr (default_confidence_scores extracted_data)
      | Inr scores \<Rightarrow> Inr scores)"

text \<open>
  The leaf field paths as the specification describes them: a depth-first walk that
  joins mapping keys and sequence indices with dots and lists every scalar it reaches.
  This definition follows the specification's words, not the source.
\<close>

fun spec_leaf_paths :: "pyval \<Rightarrow> string \<Rightarrow> string list"
  and spec_leaf_paths_items :: "(string \<times> pyval) list \<Rightarrow> string \<Rightarrow> string list"
  and spec_leaf_paths_elems :: "pyval list \<Rightarrow> nat \<Rightarrow> string \<Rightarrow> string list" where
  "spec_leaf_paths (PDict items) prefix = spec_leaf_paths_items items prefix"
| "spec_leaf_paths (PList elems) prefix = spec_leaf_paths_elems elems 0 prefix"
| "spec_leaf_paths PNone prefix = [prefix]"
| "spec_leaf_paths (PBool b) prefix = [prefix]"
| "spec_leaf_paths (PInt i) prefix = [prefix]"
| "spec_leaf_paths (PFloat x) prefix = [prefix]"
| "spec_leaf_paths (PStr s) prefix = [prefix]"
| "spec_leaf_paths_items [] prefix = []"
| "spec_leaf_paths_items ((key, v) # rest) prefix =
     spec_leaf_paths v (if prefix \<noteq> [] then prefix @ ''.'' @ key else key)
     @ spec_leaf_paths_items rest prefix"
| "spec_leaf_paths_elems [] i prefix = []"
| "spec_leaf_paths_elems (item # rest) i prefix =
     spec_leaf_paths item (if prefix \<noteq> [] then prefix @ ''.'' @ str_nat i else str_nat i)
     @ spec_leaf_paths_elems rest (i + 1) prefix"

subsection \<open>fix\_validation\_errors\<close>

text \<open>
  \<^verbatim>\<open>
  def fix_validation_errors(self, data, validation_errors):
      try:
          prompt = PromptTemplates.get_validation_prompt(data, validation_errors)
          response = self.call_gemini(prompt)
          if 'error' in response:
              return data
          try:
              fixed_data = json.loads(response['text'])
              return fixed_data
          except json.JSONDecodeError:
              return data
      except Exception as e:
          return data
  \<close>
  \<open>fix_validation_errors_body\<close> is the body of the outer \<^verbatim>\<open>try\<close>. Both functions
  return \<open>Inr\<close> of what the source returns and \<open>Inl\<close> of what it raises.
\<close>

definition get_validation_prompt :: "pyval \<Rightarrow> string list \<Rightarrow> prompt" where
  "get_validation_prompt data validation_errors = ValidationPrompt data validation_errors"

definition fix_validation_errors_body ::
    "api \<Rightarrow> json_parser \<Rightarrow> pyval \<Rightarrow> string list \<Rightarrow> exc + pyval" where
  "fix_validation_errors_body model json_loads data validation_errors =
     (let prompt = get_validation_prompt data validation_errors;
          response = call_gemini model 0 prompt None
      in if resp_error response \<noteq> None then Inr data
         else
           (case json_loads (resp_text response) of
              Inr fixed_data \<Rightarrow> Inr fixed_data
            | Inl JSONDecodeError \<Rightarrow> Inr data
            | Inl e \<Rightarrow> Inl e))"

definition fix_validation_errors ::
    "api \<Rightarrow> json_parser \<Rightarrow> pyval \<Rightarrow> string list \<Rightarrow> exc + pyval" where
  "fix_validation_errors model json_loads data validation_errors =
     (case fix_validation_errors_body model json_loads data validation_errors of
        Inl e \<Rightarrow> Inr data
      | Inr v \<Rightarrow> Inr v)"

section \<open>ConfidenceScorer (utils/confidence.py)\<close>

subsection \<open>datetime.strptime\<close>

text \<open>
  \<^verbatim>\<open>datetime.strptime\<close> for formats made of \<^verbatim>\<open>%Y\<close>, \<^verbatim>\<open>%m\<close>, \<^verbatim>\<open>%d\<close> and literal
  characters, as the library's \<^verbatim>\<open>_strptime\<close> does it: the format becomes a regular
  expression,
  \<^verbatim>\<open>
  %Y  (?P<Y>\d\d\d\d)
  %m  (?P<m>1[0-2]|0[1-9]|[1-9])
  %d  (?P<d>3[0-1]|[1-2]\d|0[1-9]|[1-9]| [1-9])
  \<close>
  which is matched at the start of the string (ignoring case); the first match in
  backtracking order counts, and text left after it is an error
  (\<^verbatim>\<open>unconverted data remains\<close>). The fields must then form a date: a year from 1 to
  9999 and a day that the month has. Every failure is a \<open>ValueError\<close>.
\<close>

datatype directive = DirY | Dirm | Dird | DirLit char

definition digit_val :: "char \<Rightarrow> nat" where
  "digit_val c = of_char c - 48"

definition digit_between :: "nat \<Rightarrow> nat \<Rightarrow> char \<Rightarrow> bool" where
  "digit_between lo hi c = (py_isdigit c \<and> lo \<le> digit_val c \<and> digit_val c \<le> hi)"

text \<open>The parses of one directive at the start of a string, in the order of its alternatives.\<close>

definition parse_Y :: "string \<Rightarrow> (nat \<times> string) list" where
  "parse_Y s =
     (case s of
        a # b # c # d # rest \<Rightarrow>
          if py_isdigit a \<and> py_isdigit b \<and> py_isdigit c \<and> py_isdigit d
          then [(1000 * digit_val a + 100 * digit_val b + 10 * digit_val c + digit_val d, rest)]
          else []
      | _ \<Rightarrow> [])"

definition two_chars :: "(char \<Rightarrow> bool) \<Rightarrow> (char \<Rightarrow> bool) \<Rightarrow> (char \<Rightarrow> char \<Rightarrow> nat) \<Rightarrow> string
    \<Rightarrow> (nat \<times> string) list" where
  "two_chars p q val s =
     (case s of a # b # rest \<Rightarrow> if p a \<and> q b then [(val a b, rest)] else [] | _ \<Rightarrow> [])"

definition one_char :: "(char \<Rightarrow> bool) \<Rightarrow> string \<Rightarrow> (nat \<times> string) list" where
  "one_char p s = (case s of a # rest \<Rightarrow> if p a then [(digit_val a, rest)] else [] | _ \<Rightarrow> [])"

definition two_digits :: "char \<Rightarrow> char \<Rightarrow> nat" where
  "two_digits a b = 10 * digit_val a + digit_val b"

definition parse_m :: "string \<Rightarrow> (nat \<times> string) list" where
  "parse_m s =
     two_chars ((=) CHR ''1'') (digit_between 0 2) two_digits s
     @ two_chars ((=) CHR ''0'') (digit_between 1 9) two_digits s
     @ one_char (digit_between 1 9) s"

definition parse_d :: "string \<Rightarrow> (nat \<times> string) list" where
  "parse_d s =
     two_chars ((=) CHR ''3'') (digit_between 0 1) two_digits s
     @ two_chars (digit_between 1 2) py_isdigit two_digits s
     @ two_chars ((=) CHR ''0'') (digit_between 1 9) two_digits s
     @ one_char (digit_between 1 9) s
     @ two_chars ((=) CHR '' '') (digit_between 1 9) (\<lambda>a b. digit_val b) s"

text \<open>
  All parses of a format at the start of a string, in backtracking order, each with the
  (year, month, day) read and the text left over.
\<close>

fun strptime_parses ::
    "directive list \<Rightarrow> string \<Rightarrow> nat \<times> nat \<times> nat \<Rightarrow> ((nat \<times> nat \<times> nat) \<times> string) list" where
  "strptime_parses [] s f = [(f, s)]"
| "strptime_parses (DirLit c # ds) s f =
     (case s of x # rest \<Rightarrow> if ci_test c x then strptime_parses ds rest f else [] | [] \<Rightarrow> [])"
| "strptime_parses (DirY # ds) s (y, m, d) =
     concat (map (\<lambda>(v, rest). strptime_parses ds rest (v, m, d)) (parse_Y s))"
| "strptime_parses (Dirm # ds) s (y, m, d) =
     concat (map (\<lambda>(v, rest). strptime_parses ds rest (y, v, d)) (parse_m s))"
| "strptime_parses (Dird # ds) s (y, m, d) =
     concat (map (\<lambda>(v, rest). strptime_parses ds rest (y, m, v)) (parse_d s))"

definition is_leap :: "nat \<Rightarrow> bool" where
  "is_leap y = (y mod 4 = 0 \<and> (y mod 100 \<noteq> 0 \<or> y mod 400 = 0))"

definition days_in_month :: "nat \<Rightarrow> nat \<Rightarrow> nat" where
  "days_in_month y m =
     (if m = 2 then (if is_leap y then 29 else 28)
      else if m = 4 \<or> m = 6 \<or> m = 9 \<or> m = 11 then 30 else 31)"

definition valid_date :: "nat \<times> nat \<times> nat \<Rightarrow> bool" where
  "valid_date f =
     (case f of (y, m, d) \<Rightarrow>
        1 \<le> y \<and> y \<le> 9999 \<and> 1 \<le> m \<and> m \<le> 12 \<and> 1 \<le> d \<and> d \<le> days_in_month y m)"

definition strptime :: "string \<Rightarrow> directive list \<Rightarrow> exc + (nat \<times> nat \<times> nat)" where
  "strptime s fmt =
     (case strptime_parses fmt s (1900, 1, 1) of
        [] \<Rightarrow> Inl ValueError
      | (f, rest) # others \<Rightarrow>
          if rest \<noteq> [] then Inl ValueError
          else if valid_date f then Inr f
          else Inl ValueError)"

text \<open>The formats \<^verbatim>\<open>%Y-%m-%d\<close>, \<^verbatim>\<open>%m/%d/%Y\<close>, \<^verbatim>\<open>%d/%m/%Y\<close>, \<^verbatim>\<open>%m-%d-%Y\<close>, \<^verbatim>\<open>%d-%m-%Y\<close>.\<close>

definition fmt_Ymd :: "directive list" where
  "fmt_Ymd = [DirY, DirLit CHR ''-'', Dirm, DirLit CHR ''-'', Dird]"

definition fmt_mdY_slash :: "directive list" where
  "fmt_mdY_slash = [Dirm, DirLit CHR ''/'', Dird, DirLit CHR ''/'', DirY]"

definition fmt_dmY_slash :: "directive list" where
  "fmt_dmY_slash = [Dird, DirLit CHR ''/'', Dirm, DirLit CHR ''/'', DirY]"

definition fmt_mdY_dash :: "directive list" where
  "fmt_mdY_dash = [Dirm, DirLit CHR ''-'', Dird, DirLit CHR ''-'', DirY]"

definition fmt_dmY_dash :: "directive list" where
  "fmt_dmY_dash = [Dird, DirLit CHR ''-'', Dirm, DirLit CHR ''-'', DirY]"

subsection \<open>Character classes and counted repetition\<close>

definition is_ascii_upper :: "char \<Rightarrow> bool" where
  "is_ascii_upper c = (let n = (of_char c :: nat) in 65 \<le> n \<and> n \<le> 90)"

definition is_ascii_lower :: "char \<Rightarrow> bool" where
  "is_ascii_lower c = (let n = (of_char c :: nat) in 97 \<le> n \<and> n \<le> 122)"

definition is_ascii_alpha :: "char \<Rightarrow> bool" where
  "is_ascii_alpha c = (is_ascii_upper c \<or> is_ascii_lower c)"

definition is_ascii_alnum :: "char \<Rightarrow> bool" where
  "is_ascii_alnum c = (is_ascii_alpha c \<or> py_isdigit c)"

text \<open>\<open>rx_rep n r\<close> is \<^verbatim>\<open>r{n}\<close>, \<open>rx_upto n r\<close> is \<^verbatim>\<open>r{0,n}\<close>.\<close>

primrec rx_rep :: "nat \<Rightarrow> rx \<Rightarrow> rx" where
  "rx_rep 0 r = Eps"
| "rx_rep (Suc n) r = Seq r (rx_rep n r)"

primrec rx_upto :: "nat \<Rightarrow> rx \<Rightarrow> rx" where
  "rx_upto 0 r = Eps"
| "rx_upto (Suc n) r = rx_opt (Seq r (rx_upto n r))"

subsection \<open>The sub-checks of the heuristic confidence\<close>

text \<open>
  \<^verbatim>\<open>
  def _date_confidence(self, value):
      if not isinstance(value, str):
          return 0.3
      date_patterns = [
          r'^\d{4}-\d{2}-\d{2}$',  # YYYY-MM-DD
          r'^\d{2}/\d{2}/\d{4}$',  # MM/DD/YYYY
          r'^\d{2}-\d{2}-\d{4}$',  # MM-DD-YYYY
      ]
      for pattern in date_patterns:
          if re.match(pattern, value):
              try:
                  if '-' in value and len(value) == 10:
                      datetime.strptime(value, '%Y-%m-%d')
                  elif '/' in value:
                      datetime.strptime(value, '%m/%d/%Y')
                  elif '-' in value and len(value) != 10:
                      datetime.strptime(value, '%m-%d-%Y')
                  return 0.9
              except ValueError:
                  return 0.4
      if re.search(r'\d{4}', value) and re.search(r'\d{1,2}', value):
          return 0.6
      return 0.2
  \<close>
\<close>

definition date_patterns :: "rx list" where
  "date_patterns =
     [rx_seq [rx_rep 4 rx_d, rx_lit ''-'', rx_rep 2 rx_d, rx_lit ''-'', rx_rep 2 rx_d],
      rx_seq [rx_rep 2 rx_d, rx_lit ''/'', rx_rep 2 rx_d, rx_lit ''/'', rx_rep 4 rx_d],
      rx_seq [rx_rep 2 rx_d, rx_lit ''-'', rx_rep 2 rx_d, rx_lit ''-'', rx_rep 4 rx_d]]"

text \<open>The body of the \<^verbatim>\<open>try\<close>, up to the \<^verbatim>\<open>return 0.9\<close>.\<close>

definition try_parse_date :: "string \<Rightarrow> exc + unit" where
  "try_parse_date v =
     (if CHR ''-'' \<in> set v \<and> length v = 10 then map_sum id (\<lambda>f. ()) (strptime v fmt_Ymd)
      else if CHR ''/'' \<in> set v then map_sum id (\<lambda>f. ()) (strptime v fmt_mdY_slash)
      else if CHR ''-'' \<in> set v \<and> length v \<noteq> 10
        then map_sum id (\<lambda>f. ()) (strptime v fmt_mdY_dash)
      else Inr ())"

text \<open>The loop over the patterns: \<open>None\<close> when no pattern matched.\<close>

fun date_pattern_loop :: "rx list \<Rightarrow> string \<Rightarrow> real option" where
  "date_pattern_loop [] v = None"
| "date_pattern_loop (pattern # rest) v =
     (if re_match_anchored pattern v
      then (case try_parse_date v of Inr u \<Rightarrow> Some 0.9 | Inl e \<Rightarrow> Some 0.4)
      else date_pattern_loop rest v)"

definition date_confidence :: "pyval \<Rightarrow> real" where
  "date_confidence value =
     (case value of
        PStr v \<Rightarrow>
          (case date_pattern_loop date_patterns v of
             Some c \<Rightarrow> c
           | None \<Rightarrow>
               if re_search (rx_rep 4 rx_d) v \<and> re_search (Seq rx_d (rx_opt rx_d)) v then 0.6
               else 0.2)
      | _ \<Rightarrow> 0.3)"

text \<open>
  \<^verbatim>\<open>isinstance(value, (int, float))\<close> holds for integers, floats and booleans (a
  \<^verbatim>\<open>bool\<close> is an \<^verbatim>\<open>int\<close>, with \<^verbatim>\<open>True == 1\<close> and \<^verbatim>\<open>False == 0\<close>).
\<close>

definition number_value :: "pyval \<Rightarrow> real option" where
  "number_value v =
     (case v of
        PInt i \<Rightarrow> Some (real_of_int i)
      | PFloat x \<Rightarrow> Some x
      | PBool b \<Rightarrow> Some (if b then 1 else 0)
      | _ \<Rightarrow> None)"

text \<open>
  \<^verbatim>\<open>
  def _amount_confidence(self, value):
      if isinstance(value, (int, float)):
          if value >= 0: return 0.85
          else: return 0.6
      if isinstance(value, str):
          currency_patterns = [r'^\$?[\d,]+\.?\d{0,2}$', r'^[\d,]+\.?\d{0,2}\s*\$?$']
          for pattern in currency_patterns:
              if re.match(pattern, value.strip()):
                  return 0.8
          if re.search(r'\d', value):
              return 0.5
      return 0.2
  \<close>
\<close>

definition digit_or_comma :: "char \<Rightarrow> bool" where
  "digit_or_comma c = (py_isdigit c \<or> c = CHR '','')"

definition currency_patterns :: "rx list" where
  "currency_patterns =
     [rx_seq [rx_opt (rx_lit ''$''), rx_plus (Sym digit_or_comma), rx_opt (rx_lit ''.''),
              rx_upto 2 rx_d],
      rx_seq [rx_plus (Sym digit_or_comma), rx_opt (rx_lit ''.''), rx_upto 2 rx_d, Star rx_s,
              rx_opt (rx_lit ''$'')]]"

definition amount_confidence :: "pyval \<Rightarrow> real" where
  "amount_confidence value =
     (case number_value value of
        Some x \<Rightarrow> if x \<ge> 0 then 0.85 else 0.6
      | None \<Rightarrow>
          (case value of
             PStr v \<Rightarrow>
               if list_ex (\<lambda>pattern. re_match_anchored pattern (py_strip v)) currency_patterns
               then 0.8
               else if re_search rx_d v then 0.5
               else 0.2
           | _ \<Rightarrow> 0.2))"

text \<open>
  \<^verbatim>\<open>
  def _number_confidence(self, value, original_text):
      if not isinstance(value, str):
          return 0.3
      if re.match(r'^[A-Z0-9\-_]+$', value):
          if value in original_text: return 0.9
          else: return 0.6
      return 0.4
  \<close>
\<close>

definition id_char :: "char \<Rightarrow> bool" where
  "id_char c = (is_ascii_upper c \<or> py_isdigit c \<or> c = CHR ''-'' \<or> c = CHR ''_'')"

definition number_confidence :: "pyval \<Rightarrow> string \<Rightarrow> real" where
  "number_confidence value original_text =
     (case value of
        PStr v \<Rightarrow>
          if re_match_anchored (rx_plus (Sym id_char)) v
          then (if py_in v original_text then 0.9 else 0.6)
          else 0.4
      | _ \<Rightarrow> 0.3)"

text \<open>
  \<^verbatim>\<open>
  def _name_confidence(self, value, original_text):
      if not isinstance(value, str) or len(value) < 2:
          return 0.2
      if value.lower() in original_text.lower():
          return 0.8
      if re.match(r'^[A-Za-z\s\.,]+$', value):
          return 0.7
      return 0.4
  \<close>
\<close>

definition name_char :: "char \<Rightarrow> bool" where
  "name_char c = (is_ascii_alpha c \<or> py_isspace c \<or> c = CHR ''.'' \<or> c = CHR '','')"

definition name_confidence :: "pyval \<Rightarrow> string \<Rightarrow> real" where
  "name_confidence value original_text =
     (case value of
        PStr v \<Rightarrow>
          if length v < 2 then 0.2
          else if py_in (py_lower v) (py_lower original_text) then 0.8
          else if re_match_anchored (rx_plus (Sym name_char)) v then 0.7
          else 0.4
      | _ \<Rightarrow> 0.2)"

text \<open>
  \<^verbatim>\<open>
  def _email_confidence(self, value):
      if not isinstance(value, str):
          return 0.2
      email_pattern = r'^[a-zA-Z0-9._%+-]+@[a-zA-Z0-9.-]+\.[a-zA-Z]{2,}$'
      if re.match(email_pattern, value):
          return 0.95
      if '@' in value and '.' in value:
          return 0.6
      return 0.2
  \<close>
\<close>

definition email_local_char :: "char \<Rightarrow> bool" where
  "email_local_char c = (is_ascii_alnum c \<or> c \<in> set ''._%+-'')"

definition email_domain_char :: "char \<Rightarrow> bool" where
  "email_domain_char c = (is_ascii_alnum c \<or> c \<in> set ''.-'')"

definition email_pattern :: rx where
  "email_pattern =
     rx_seq [rx_plus (Sym email_local_char), rx_lit ''@'', rx_plus (Sym email_domain_char),
             rx_lit ''.'', Sym is_ascii_alpha, rx_plus (Sym is_ascii_alpha)]"

definition email_confidence :: "pyval \<Rightarrow> real" where
  "email_confidence value =
     (case value of
        PStr v \<Rightarrow>
          if re_match_anchored email_pattern v then 0.95
          else if CHR ''@'' \<in> set v \<and> CHR ''.'' \<in> set v then 0.6
          else 0.2
      | _ \<Rightarrow> 0.2)"

text \<open>
  \<^verbatim>\<open>
  def _phone_confidence(self, value):
      if not isinstance(value, str):
          return 0.2
      clean_phone = re.sub(r'[\s\-\(\)\.]', '', value)
      if re.match(r'^\+?1?\d{10}$', clean_phone):
          return 0.9
      if re.match(r'^\d{7,15}$', clean_phone):
          return 0.7
      return 0.3
  \<close>
\<close>

definition phone_separator :: "char \<Rightarrow> bool" where
  "phone_separator c = (py_isspace c \<or> c \<in> set ''-().'')"

definition clean_phone :: "string \<Rightarrow> string" where
  "clean_phone v = filter (\<lambda>c. \<not> phone_separator c) v"

definition phone_confidence :: "pyval \<Rightarrow> real" where
  "phone_confidence value =
     (case value of
        PStr v \<Rightarrow>
          if re_match_anchored
               (rx_seq [rx_opt (rx_lit ''+''), rx_opt (rx_lit ''1''), rx_rep 10 rx_d])
               (clean_phone v)
          then 0.9
          else if re_match_anchored (Seq (rx_rep 7 rx_d) (rx_upto 8 rx_d)) (clean_phone v)
          then 0.7
          else 0.3
      | _ \<Rightarrow> 0.2)"

text \<open>\<^verbatim>\<open>str.split()\<close>: the maximal runs of characters that are not whitespace.\<close>

fun split_ws :: "string \<Rightarrow> string \<Rightarrow> string list" where
  "split_ws [] w = (if w = [] then [] else [w])"
| "split_ws (c # cs) w =
     (if py_isspace c then (if w = [] then split_ws cs [] else w # split_ws cs [])
      else split_ws cs (w @ [c]))"

definition py_split :: "string \<Rightarrow> string list" where
  "py_split s = split_ws s []"

text \<open>
  \<^verbatim>\<open>
  def _text_presence_confidence(self, value, original_text):
      if not value or not original_text:
          return 0.0
      if value in original_text:
          return 0.9
      if value.lower() in original_text.lower():
          return 0.85
      if len(value) > 5:
          words = value.split()
          matches = sum(1 for word in words if word.lower() in original_text.lower())
          if matches > 0:
              return 0.3 + (matches / len(words)) * 0.4
      return 0.1
  \<close>
\<close>

definition text_presence_confidence :: "string \<Rightarrow> string \<Rightarrow> real" where
  "text_presence_confidence v original_text =
     (if v = [] \<or> original_text = [] then 0
      else if py_in v original_text then 0.9
      else if py_in (py_lower v) (py_lower original_text) then 0.85
      else if length v > 5
      then (let words = py_split v;
                matches = length (filter (\<lambda>word. py_in (py_lower word)
                                                    (py_lower original_text)) words)
            in if matches > 0 then 0.3 + (real matches / real (length words)) * 0.4
               else 0.1)
      else 0.1)"

text \<open>
  \<^verbatim>\<open>
  def _format_confidence(self, field_path, value):
      if value is None:
          return 0.0
      if 'amount' in field_path.lower() or 'total' in field_path.lower():
          if isinstance(value, (int, float)): return 0.8
          return 0.3
      if 'quantity' in field_path.lower():
          if isinstance(value, (int, float)) and value >= 0: return 0.8
          return 0.4
      if 'date' in field_path.lower():
          if isinstance(value, str) and len(value) >= 8: return 0.7
          return 0.3
      return 0.5
  \<close>
\<close>

definition format_confidence :: "string \<Rightarrow> pyval \<Rightarrow> real" where
  "format_confidence field_path value =
     (if value = PNone then 0
      else if py_in ''amount'' (py_lower field_path) \<or> py_in ''total'' (py_lower field_path)
      then (if number_value value \<noteq> None then 0.8 else 0.3)
      else if py_in ''quantity'' (py_lower field_path)
      then (case number_value value of
              Some x \<Rightarrow> if x \<ge> 0 then 0.8 else 0.4
            | None \<Rightarrow> 0.4)
      else if py_in ''date'' (py_lower field_path)
      then (case value of PStr v \<Rightarrow> if length v \<ge> 8 then 0.7 else 0.3 | _ \<Rightarrow> 0.3)
      else 0.5)"

subsection \<open>calculate\_field\_confidence\<close>

text \<open>
  \<^verbatim>\<open>str(value)\<close> is the string itself for a string. For the other values it is the
  parameter \<open>py_repr\<close> (the digits of a number, the display of a list, ...).
\<close>

definition py_str :: "(pyval \<Rightarrow> string) \<Rightarrow> pyval \<Rightarrow> string" where
  "py_str py_repr value = (case value of PStr s \<Rightarrow> s | _ \<Rightarrow> py_repr value)"

definition py_endswith :: "string \<Rightarrow> string \<Rightarrow> bool" where
  "py_endswith s suffix = py_startswith (rev s) (rev suffix)"

text \<open>
  \<^verbatim>\<open>
  def _calculate_heuristic_confidence(self, field_path, value, original_text):
      if value is None or value == "":
          return 0.0
      confidence_adjustments = []
      if 'date' in field_path.lower():
          confidence_adjustments.append(self._date_confidence(value))
      if 'amount' in field_path.lower() or 'total' in field_path.lower()
              or 'cost' in field_path.lower():
          confidence_adjustments.append(self._amount_confidence(value))
      if 'number' in field_path.lower() or field_path.endswith('_number'):
          confidence_adjustments.append(self._number_confidence(value, original_text))
      if 'name' in field_path.lower():
          confidence_adjustments.append(self._name_confidence(value, original_text))
      if 'email' in field_path.lower():
          confidence_adjustments.append(self._email_confidence(value))
      if 'phone' in field_path.lower():
          confidence_adjustments.append(self._phone_confidence(value))
      text_presence = self._text_presence_confidence(str(value), original_text)
      confidence_adjustments.append(text_presence)
      format_confidence = self._format_confidence(field_path, value)
      confidence_adjustments.append(format_confidence)
      if confidence_adjustments:
          return np.mean(confidence_adjustments)
      else:
          return 0.5
  \<close>
\<close>

definition calculate_heuristic_confidence ::
    "(pyval \<Rightarrow> string) \<Rightarrow> string \<Rightarrow> pyval \<Rightarrow> string \<Rightarrow> real" where
  "calculate_heuristic_confidence py_repr field_path value original_text =
     (if value = PNone \<or> value = PStr [] then 0
      else
        let path = py_lower field_path;
            confidence_adjustments =
              (if py_in ''date'' path then [date_confidence value] else [])
              @ (if py_in ''amount'' path \<or> py_in ''total'' path \<or> py_in ''cost'' path
                 then [amount_confidence value] else [])
              @ (if py_in ''number'' path \<or> py_endswith field_path ''_number''
                 then [number_confidence value original_text] else [])
              @ (if py_in ''name'' path then [name_confidence value original_text] else [])
              @ (if py_in ''email'' path then [email_confidence value] else [])
              @ (if py_in ''phone'' path then [phone_confidence value] else [])
              @ [text_presence_confidence (py_str py_repr value) original_text]
              @ [format_confidence field_path value]
        in if confidence_adjustments \<noteq> []
           then sum_list confidence_adjustments / real (length confidence_adjustments)
           else 0.5)"

text \<open>
  \<^verbatim>\<open>
  def calculate_field_confidence(self, field_path, value, original_text,
                                 gemini_confidence=None):
      if value is None:
          return 0.0
      if gemini_confidence is not None:
          base_confidence = gemini_confidence
      else:
          base_confidence = 0.5
      heuristic_score = self._calculate_heuristic_confidence(field_path, value, original_text)
      if gemini_confidence is not None:
          final_confidence = 0.7 * base_confidence + 0.3 * heuristic_score
      else:
          final_confidence = heuristic_score
      return max(0.0, min(1.0, final_confidence))
  \<close>
\<close>

definition calculate_field_confidence ::
    "(pyval \<Rightarrow> string) \<Rightarrow> string \<Rightarrow> pyval \<Rightarrow> string \<Rightarrow> real option \<Rightarrow> real" where
  "calculate_field_confidence py_repr field_path value original_text gemini_confidence =
     (if value = PNone then 0
      else
        let base_confidence = (case gemini_confidence of Some g \<Rightarrow> g | None \<Rightarrow> 0.5);
            heuristic_score =
              calculate_heuristic_confidence py_repr field_path value original_text;
            final_confidence =
              (if gemini_confidence \<noteq> None then 0.7 * base_confidence + 0.3 * heuristic_score
               else heuristic_score)
        in max 0 (min 1 final_confidence))"

subsection \<open>identify\_low\_confidence\_fields\<close>

text \<open>
  \<^verbatim>\<open>
  def __init__(self, low_confidence_threshold: float = 0.7)

  def identify_low_confidence_fields(self, field_confidences):
      low_confidence_fields = []
      for field, confidence in field_confidences.items():
          if confidence < self.low_confidence_threshold:
              low_confidence_fields.append((field, confidence))
      low_confidence_fields.sort(key=lambda x: x[1])
      return low_confidence_fields
  \<close>
  The dictionary \<open>field_confidences\<close> is its list of items in insertion order. Python's
  \<^verbatim>\<open>list.sort\<close> is stable, and so is \<^const>\<open>sort_key\<close>.
\<close>

definition default_low_confidence_threshold :: real where
  "default_low_confidence_threshold = 0.7"

definition identify_low_confidence_fields ::
    "real \<Rightarrow> (string \<times> real) list \<Rightarrow> (string \<times> real) list" where
  "identify_low_confidence_fields low_confidence_threshold field_confidences =
     sort_key snd
       (filter (\<lambda>(field, confidence). confidence < low_confidence_threshold)
          field_confidences)"

section \<open>DataValidator (utils/validation.py)\<close>

subsection \<open>Operations on Python values\<close>

text \<open>A computation that returns a value or raises, and its sequencing.\<close>

definition bind_exc :: "exc + 'a \<Rightarrow> ('a \<Rightarrow> exc + 'b) \<Rightarrow> exc + 'b" where
  "bind_exc x f = (case x of Inl e \<Rightarrow> Inl e | Inr v \<Rightarrow> f v)"

text \<open>
  \<^verbatim>\<open>key in obj\<close> for a string key: a key of a dictionary, an element of a list, a
  substring of a string; any other value is not iterable (TypeError).
\<close>

definition py_contains :: "pyval \<Rightarrow> string \<Rightarrow> exc + bool" where
  "py_contains obj key =
     (case obj of
        PDict d \<Rightarrow> Inr (map_of d key \<noteq> None)
      | PList xs \<Rightarrow> Inr (PStr key \<in> set xs)
      | PStr s \<Rightarrow> Inr (py_in key s)
      | _ \<Rightarrow> Inl TypeError)"

text \<open>
  \<^verbatim>\<open>obj[key]\<close> for a string key: the value of a dictionary (KeyError without the key);
  a list or a string takes integer indices only, the other values take none (TypeError).
\<close>

definition py_getitem :: "pyval \<Rightarrow> string \<Rightarrow> exc + pyval" where
  "py_getitem obj key =
     (case obj of
        PDict d \<Rightarrow> (case map_of d key of Some v \<Rightarrow> Inr v | None \<Rightarrow> Inl KeyError)
      | _ \<Rightarrow> Inl TypeError)"

text \<open>
  \<^verbatim>\<open>float(v)\<close>. An integer is converted by rounding to the nearest float, ties to
  even; the greatest float is \<open>2 ^ 1024 - 2 ^ 971\<close>, so an integer of absolute value
  \<open>2 ^ 1024 - 2 ^ 970\<close> or more rounds out of the range of the floats, and \<^verbatim>\<open>float\<close>
  raises OverflowError. On a string it is the parameter \<open>float_str\<close> (the number the
  string denotes, or \<open>None\<close> where \<^verbatim>\<open>float\<close> raises ValueError); \<^verbatim>\<open>None\<close>, a list or a
  dictionary give TypeError.
\<close>

definition float_overflows :: "int \<Rightarrow> bool" where
  "float_overflows i = (\<bar>i\<bar> \<ge> 2 ^ 1024 - 2 ^ 970)"

definition py_float :: "(string \<Rightarrow> real option) \<Rightarrow> pyval \<Rightarrow> exc + real" where
  "py_float float_str v =
     (case v of
        PInt i \<Rightarrow> if float_overflows i then Inl OverflowError else Inr (real_of_int i)
      | PFloat x \<Rightarrow> Inr x
      | PBool b \<Rightarrow> Inr (if b then 1 else 0)
      | PStr s \<Rightarrow> (case float_str s of Some x \<Rightarrow> Inr x | None \<Rightarrow> Inl ValueError)
      | _ \<Rightarrow> Inl TypeError)"

text \<open>The truth value of a Python value.\<close>

definition py_truthy :: "pyval \<Rightarrow> bool" where
  "py_truthy v =
     (case v of
        PNone \<Rightarrow> False
      | PBool b \<Rightarrow> b
      | PInt i \<Rightarrow> i \<noteq> 0
      | PFloat x \<Rightarrow> x \<noteq> 0
      | PStr s \<Rightarrow> s \<noteq> []
      | PList xs \<Rightarrow> xs \<noteq> []
      | PDict d \<Rightarrow> d \<noteq> [])"

text \<open>\<^verbatim>\<open>field in obj and obj[field] is not None\<close>, evaluated from left to right.\<close>

definition present :: "pyval \<Rightarrow> string \<Rightarrow> exc + bool" where
  "present obj field =
     bind_exc (py_contains obj field) (\<lambda>has.
       if \<not> has then Inr False
       else bind_exc (py_getitem obj field) (\<lambda>v. Inr (v \<noteq> PNone)))"

text \<open>\<^verbatim>\<open>all(field in obj and obj[field] is not None for field in [...])\<close>.\<close>

fun all_present :: "pyval \<Rightarrow> string list \<Rightarrow> exc + bool" where
  "all_present obj [] = Inr True"
| "all_present obj (field # rest) =
     bind_exc (present obj field) (\<lambda>p. if p then all_present obj rest else Inr False)"

text \<open>\<^verbatim>\<open>float(obj[field])\<close>.\<close>

definition float_field :: "(string \<Rightarrow> real option) \<Rightarrow> pyval \<Rightarrow> string \<Rightarrow> exc + real" where
  "float_field float_str obj field = bind_exc (py_getitem obj field) (py_float float_str)"

text \<open>\<^verbatim>\<open>datetime.strptime(v, fmt)\<close> on a value: not a string gives TypeError.\<close>

definition py_strptime :: "pyval \<Rightarrow> directive list \<Rightarrow> exc + (nat \<times> nat \<times> nat)" where
  "py_strptime v fmt = (case v of PStr s \<Rightarrow> strptime s fmt | _ \<Rightarrow> Inl TypeError)"

text \<open>
  \<^verbatim>\<open>str.upper\<close>: a-z and 224-254 without the division sign 247 lose bit 5; the sharp s
  (223) becomes \<^verbatim>\<open>SS\<close>. The upper-case forms of 181 and 255 lie above 255; these two
  characters are left as they are, which is not an ASCII letter either way.
\<close>

definition py_upper_char :: "char \<Rightarrow> string" where
  "py_upper_char c =
     (let n = (of_char c :: nat)
      in if (97 \<le> n \<and> n \<le> 122) \<or> (224 \<le> n \<and> n \<le> 254 \<and> n \<noteq> 247)
         then [case c of Char b0 b1 b2 b3 b4 b5 b6 b7 \<Rightarrow> Char b0 b1 b2 b3 b4 False b6 b7]
         else if n = 223 then ''SS''
         else [c])"

definition py_upper :: "string \<Rightarrow> string" where
  "py_upper s = concat (map py_upper_char s)"

subsection \<open>The validation result\<close>

text \<open>
  The messages are f-strings; a message is kept as its template (a constructor) with
  the values put into it, not as the formatted string. \<^verbatim>\<open>str(e)\<close> of an exception is
  kept as the exception.
\<close>

datatype field_err =
    DateMustBeString
  | DateEmpty
  | DateYearUnreasonable nat
  | InvalidDateFormat string
  | AmountNull
  | AmountNegative
  | InvalidAmountFormat string
  | AmountMustBeNumber pyval
  | NumberMustBeString
  | NumberEmpty
  | NumberTooLong
  | EmailMustBeString
  | InvalidEmailFormat string
  | PhoneMustBeString
  | InvalidPhoneFormat string
  | CurrencyMustBeString
  | UnknownCurrency string

datatype msg =
    RequiredFieldMissing string
  | FieldError string field_err
  | DueDateBeforeInvoiceDate
  | AtLeastOneMedication
  | ItemMissingField nat string
  | ItemFieldError nat string field_err
  | MedicationMissingField nat string
  | ValidationError exc
  | NoValidationRule string
  | ItemTotalMismatch nat real real
  | SubtotalMismatch real real
  | TotalMismatch real real
  | CouldNotValidateTotals exc
  | TotalDueMismatch real real
  | CouldNotValidateBill exc

record field_validation =
  fv_is_valid :: bool
  fv_value :: pyval
  fv_type :: string

record validation_result =
  is_valid :: bool
  errors :: "msg list"
  warnings :: "msg list"
  field_validations :: "(string \<times> field_validation) list"

text \<open>
  The methods of the validator change the dictionary \<^verbatim>\<open>result\<close> in place and may
  raise. A step takes the result and returns the changed result with the exception
  raised, if any; what was appended before an exception stays appended.
\<close>

type_synonym step = "validation_result \<Rightarrow> exc option \<times> validation_result"

definition skip :: step where
  "skip r = (None, r)"

definition raise :: "exc \<Rightarrow> step" where
  "raise e r = (Some e, r)"

definition then_step :: "step \<Rightarrow> step \<Rightarrow> step" where
  "then_step a b r = (case a r of (Some e, r') \<Rightarrow> (Some e, r') | (None, r') \<Rightarrow> b r')"

fun steps :: "step list \<Rightarrow> step" where
  "steps [] = skip"
| "steps (a # rest) = then_step a (steps rest)"

text \<open>Evaluate an expression, which may raise, and go on with its value.\<close>

definition eval_then :: "exc + 'a \<Rightarrow> ('a \<Rightarrow> step) \<Rightarrow> step" where
  "eval_then x f = (case x of Inl e \<Rightarrow> raise e | Inr v \<Rightarrow> f v)"

text \<open>\<^verbatim>\<open>for x in xs: body(x)\<close>.\<close>

fun for_each :: "('a \<Rightarrow> step) \<Rightarrow> 'a list \<Rightarrow> step" where
  "for_each body [] = skip"
| "for_each body (x # xs) = then_step (body x) (for_each body xs)"

text \<open>\<^verbatim>\<open>for i, x in enumerate(xs): body(i, x)\<close>, counting from \<open>i\<close>.\<close>

fun for_each_indexed :: "(nat \<Rightarrow> 'a \<Rightarrow> step) \<Rightarrow> nat \<Rightarrow> 'a list \<Rightarrow> step" where
  "for_each_indexed body i [] = skip"
| "for_each_indexed body i (x # xs) = then_step (body i x) (for_each_indexed body (i + 1) xs)"

text \<open>\<^verbatim>\<open>try: a  except (classes) as e: handler(e)\<close>.\<close>

definition catch :: "step \<Rightarrow> exc list \<Rightarrow> (exc \<Rightarrow> step) \<Rightarrow> step" where
  "catch a classes handler r =
     (case a r of
        (Some e, r') \<Rightarrow> if e \<in> set classes then handler e r' else (Some e, r')
      | (None, r') \<Rightarrow> (None, r'))"

definition add_error :: "msg \<Rightarrow> step" where
  "add_error m r = (None, r\<lparr>errors := errors r @ [m]\<rparr>)"

definition add_warning :: "msg \<Rightarrow> step" where
  "add_warning m r = (None, r\<lparr>warnings := warnings r @ [m]\<rparr>)"

definition set_field_validation :: "string \<Rightarrow> field_validation \<Rightarrow> step" where
  "set_field_validation field fv r =
     (None, r\<lparr>field_validations := dict_set (field_validations r) field fv\<rparr>)"

subsection \<open>The validators of one value\<close>

text \<open>
  A validator returns a pair \<^verbatim>\<open>(is_valid, error_msg)\<close>: \<open>None\<close> is
  \<^verbatim>\<open>(True, "")\<close>, \<open>Some err\<close> is \<^verbatim>\<open>(False, message)\<close>.
  \<^verbatim>\<open>
  def _validate_date(self, value):
      if not isinstance(value, str):
          return False, "Date must be a string"
      if not value.strip():
          return False, "Date cannot be empty"
      date_formats = ['%Y-%m-%d', '%m/%d/%Y', '%d/%m/%Y', '%m-%d-%Y', '%d-%m-%Y']
      for fmt in date_formats:
          try:
              parsed_date = datetime.strptime(value, fmt).date()
              current_year = datetime.now().year
              if parsed_date.year < 1900 or parsed_date.year > current_year + 10:
                  return False, f"Date year {parsed_date.year} seems unreasonable"
              return True, ""
          except ValueError:
              continue
      return False, f"Invalid date format: {value}. Expected formats: ..."
  \<close>
  \<open>current_year\<close> is \<^verbatim>\<open>datetime.now().year\<close>.
\<close>

definition date_formats :: "directive list list" where
  "date_formats = [fmt_Ymd, fmt_mdY_slash, fmt_dmY_slash, fmt_mdY_dash, fmt_dmY_dash]"

fun validate_date_loop :: "int \<Rightarrow> string \<Rightarrow> directive list list \<Rightarrow> field_err option" where
  "validate_date_loop current_year v [] = Some (InvalidDateFormat v)"
| "validate_date_loop current_year v (fmt # rest) =
     (case strptime v fmt of
        Inr (year, month, day) \<Rightarrow>
          if year < 1900 \<or> int year > current_year + 10
          then Some (DateYearUnreasonable year)
          else None
      | Inl e \<Rightarrow> validate_date_loop current_year v rest)"

definition validate_date :: "int \<Rightarrow> pyval \<Rightarrow> field_err option" where
  "validate_date current_year value =
     (case value of
        PStr v \<Rightarrow>
          if py_strip v = [] then Some DateEmpty
          else validate_date_loop current_year v date_formats
      | _ \<Rightarrow> Some DateMustBeString)"

text \<open>
  \<^verbatim>\<open>
  def _validate_amount(self, value):
      if value is None:
          return False, "Amount cannot be null"
      if isinstance(value, (int, float)):
          if value < 0:
              return False, "Amount cannot be negative"
          return True, ""
      if isinstance(value, str):
          clean_value = re.sub(r'[\$,\s]', '', value)
          try:
              amount = float(clean_value)
              if amount < 0:
                  return False, "Amount cannot be negative"
              return True, ""
          except ValueError:
              return False, f"Invalid amount format: {value}"
      return False, f"Amount must be a number, got {type(value).__name__}"
  \<close>
\<close>

definition amount_noise :: "char \<Rightarrow> bool" where
  "amount_noise c = (c = CHR ''$'' \<or> c = CHR '','' \<or> py_isspace c)"

definition validate_amount :: "(string \<Rightarrow> real option) \<Rightarrow> pyval \<Rightarrow> field_err option" where
  "validate_amount float_str value =
     (if value = PNone then Some AmountNull
      else
        case number_value value of
          Some x \<Rightarrow> if x < 0 then Some AmountNegative else None
        | None \<Rightarrow>
            (case value of
               PStr v \<Rightarrow>
                 (let clean_value = filter (\<lambda>c. \<not> amount_noise c) v
                  in case float_str clean_value of
                       Some amount \<Rightarrow> if amount < 0 then Some AmountNegative else None
                     | None \<Rightarrow> Some (InvalidAmountFormat v))
             | _ \<Rightarrow> Some (AmountMustBeNumber value)))"

text \<open>
  \<^verbatim>\<open>
  def _validate_number(self, value):
      if not isinstance(value, str): return False, "Number must be a string"
      if not value.strip(): return False, "Number cannot be empty"
      if len(value) > 50: return False, "Number seems too long"
      return True, ""

  def _validate_email(self, value):
      if not isinstance(value, str): return False, "Email must be a string"
      email_pattern = r'^[a-zA-Z0-9._%+-]+@[a-zA-Z0-9.-]+\.[a-zA-Z]{2,}$'
      if re.match(email_pattern, value): return True, ""
      return False, f"Invalid email format: {value}"

  def _validate_phone(self, value):
      if not isinstance(value, str): return False, "Phone must be a string"
      clean_phone = re.sub(r'[\s\-\(\)\.]', '', value)
      if re.match(r'^\+?1?\d{10,15}$', clean_phone): return True, ""
      return False, f"Invalid phone format: {value}"

  def _validate_currency(self, value):
      if not isinstance(value, str): return False, "Currency must be a string"
      valid_currencies = ['USD', 'EUR', 'GBP', 'JPY', 'CAD', 'AUD', 'CHF', 'CNY']
      if value.upper() in valid_currencies: return True, ""
      return False, f"Unknown currency code: {value}"
  \<close>
\<close>

definition validate_number :: "pyval \<Rightarrow> field_err option" where
  "validate_number value =
     (case value of
        PStr v \<Rightarrow>
          if py_strip v = [] then Some NumberEmpty
          else if length v > 50 then Some NumberTooLong
          else None
      | _ \<Rightarrow> Some NumberMustBeString)"

definition validate_email :: "pyval \<Rightarrow> field_err option" where
  "validate_email value =
     (case value of
        PStr v \<Rightarrow> if re_match_anchored email_pattern v then None else Some (InvalidEmailFormat v)
      | _ \<Rightarrow> Some EmailMustBeString)"

definition validate_phone :: "pyval \<Rightarrow> field_err option" where
  "validate_phone value =
     (case value of
        PStr v \<Rightarrow>
          if re_match_anchored
               (rx_seq [rx_opt (rx_lit ''+''), rx_opt (rx_lit ''1''), rx_rep 10 rx_d,
                        rx_upto 5 rx_d])
               (clean_phone v)
          then None
          else Some (InvalidPhoneFormat v)
      | _ \<Rightarrow> Some PhoneMustBeString)"

definition valid_currencies :: "string list" where
  "valid_currencies = [''USD'', ''EUR'', ''GBP'', ''JPY'', ''CAD'', ''AUD'', ''CHF'', ''CNY'']"

definition validate_currency :: "pyval \<Rightarrow> field_err option" where
  "validate_currency value =
     (case value of
        PStr v \<Rightarrow> if py_upper v \<in> set valid_currencies then None else Some (UnknownCurrency v)
      | _ \<Rightarrow> Some CurrencyMustBeString)"

text \<open>
  \<^verbatim>\<open>
  self.validation_rules = {'date': self._validate_date, 'amount': self._validate_amount,
      'number': self._validate_number, 'email': self._validate_email,
      'phone': self._validate_phone, 'currency': self._validate_currency}
  \<close>
\<close>

definition validation_rules ::
    "int \<Rightarrow> (string \<Rightarrow> real option) \<Rightarrow> (string \<times> (pyval \<Rightarrow> field_err option)) list" where
  "validation_rules current_year float_str =
     [(''date'', validate_date current_year),
      (''amount'', validate_amount float_str),
      (''number'', validate_number),
      (''email'', validate_email),
      (''phone'', validate_phone),
      (''currency'', validate_currency)]"

subsection \<open>The checks of a document\<close>

text \<open>
  \<^verbatim>\<open>
  def _check_required_fields(self, data, required_fields, result):
      for field in required_fields:
          if field not in data or data[field] is None or data[field] == "":
              result['errors'].append(f"Required field '{field}' is missing or empty")
  \<close>
\<close>

definition field_missing :: "pyval \<Rightarrow> string \<Rightarrow> exc + bool" where
  "field_missing data field =
     bind_exc (py_contains data field) (\<lambda>has.
       if \<not> has then Inr True
       else bind_exc (py_getitem data field) (\<lambda>v. Inr (v = PNone \<or> v = PStr [])))"

definition check_required_fields :: "pyval \<Rightarrow> string list \<Rightarrow> step" where
  "check_required_fields data required_fields =
     for_each (\<lambda>field.
       eval_then (field_missing data field) (\<lambda>missing.
         if missing then add_error (RequiredFieldMissing field) else skip))
       required_fields"

text \<open>
  \<^verbatim>\<open>
  def _validate_field_type(self, data, field, field_type, result):
      if field not in data or data[field] is None:
          return
      value = data[field]
      if field_type in self.validation_rules:
          is_valid, error_msg = self.validation_rules[field_type](value)
          result['field_validations'][field] = {'is_valid': is_valid, 'value': value,
                                                'type': field_type}
          if not is_valid:
              result['errors'].append(f"Field '{field}': {error_msg}")
      else:
          result['warnings'].append(f"No validation rule for field type '{field_type}'")
  \<close>
\<close>

definition validate_field_type ::
    "int \<Rightarrow> (string \<Rightarrow> real option) \<Rightarrow> pyval \<Rightarrow> string \<Rightarrow> string \<Rightarrow> step" where
  "validate_field_type current_year float_str data field field_type =
     eval_then (present data field) (\<lambda>p.
       if \<not> p then skip
       else
         eval_then (py_getitem data field) (\<lambda>v.
           case map_of (validation_rules current_year float_str) field_type of
             Some rule \<Rightarrow>
               then_step
                 (set_field_validation field
                    \<lparr>fv_is_valid = (rule v = None), fv_value = v, fv_type = field_type\<rparr>)
                 (case rule v of
                    None \<Rightarrow> skip
                  | Some error_msg \<Rightarrow> add_error (FieldError field error_msg))
           | None \<Rightarrow> add_warning (NoValidationRule field_type)))"

text \<open>\<^verbatim>\<open>if field in data: body\<close>.\<close>

definition when_in :: "pyval \<Rightarrow> string \<Rightarrow> step \<Rightarrow> step" where
  "when_in data field body =
     eval_then (py_contains data field) (\<lambda>has. if has then body else skip)"

text \<open>
  \<^verbatim>\<open>field in data and isinstance(data[field], list)\<close>, with the list when it holds.
\<close>

definition list_field :: "pyval \<Rightarrow> string \<Rightarrow> exc + pyval list option" where
  "list_field data field =
     bind_exc (py_contains data field) (\<lambda>has.
       if \<not> has then Inr None
       else bind_exc (py_getitem data field) (\<lambda>v.
              Inr (case v of PList xs \<Rightarrow> Some xs | _ \<Rightarrow> None)))"

text \<open>
  \<^verbatim>\<open>
  def _validate_invoice_item(self, item, index, result):
      required_item_fields = ['description', 'quantity', 'unit_price', 'total']
      for field in required_item_fields:
          if field not in item or item[field] is None:
              result['errors'].append(f"Item {index}: missing required field '{field}'")
              continue
          if field in ['quantity', 'unit_price', 'total']:
              is_valid, error_msg = self._validate_amount(item[field])
              if not is_valid:
                  result['errors'].append(f"Item {index}, field '{field}': {error_msg}")
      if all(field in item and item[field] is not None
             for field in ['quantity', 'unit_price', 'total']):
          try:
              expected_total = float(item['quantity']) * float(item['unit_price'])
              actual_total = float(item['total'])
              if abs(expected_total - actual_total) > 0.01:
                  result['warnings'].append(f"Item {index}: calculated total (...) "
                                            "doesn't match stated total (...)")
          except (ValueError, TypeError):
              pass
  \<close>
  \<open>check_item_fields\<close> is the loop over the required fields, \<open>item_total_check\<close> the
  body of the \<^verbatim>\<open>try\<close>.
\<close>

definition item_total_check :: "(string \<Rightarrow> real option) \<Rightarrow> pyval \<Rightarrow> nat \<Rightarrow> step" where
  "item_total_check float_str item index =
     eval_then (float_field float_str item ''quantity'') (\<lambda>quantity.
     eval_then (float_field float_str item ''unit_price'') (\<lambda>unit_price.
     eval_then (float_field float_str item ''total'') (\<lambda>actual_total.
       let expected_total = quantity * unit_price
       in if \<bar>expected_total - actual_total\<bar> > 0.01
          then add_warning (ItemTotalMismatch index expected_total actual_total)
          else skip)))"

definition check_item_fields :: "(string \<Rightarrow> real option) \<Rightarrow> pyval \<Rightarrow> nat \<Rightarrow> step" where
  "check_item_fields float_str item index =
     for_each (\<lambda>field.
       eval_then (present item field) (\<lambda>p.
         if \<not> p then add_error (ItemMissingField index field)
         else if field \<in> set [''quantity'', ''unit_price'', ''total'']
         then eval_then (py_getitem item field) (\<lambda>v.
                case validate_amount float_str v of
                  None \<Rightarrow> skip
                | Some error_msg \<Rightarrow> add_error (ItemFieldError index field error_msg))
         else skip))
       [''description'', ''quantity'', ''unit_price'', ''total'']"

definition validate_invoice_item :: "(string \<Rightarrow> real option) \<Rightarrow> pyval \<Rightarrow> nat \<Rightarrow> step" where
  "validate_invoice_item float_str item index =
     steps
       [check_item_fields float_str item index,
        eval_then (all_present item [''quantity'', ''unit_price'', ''total'']) (\<lambda>ok.
          if ok
          then catch (item_total_check float_str item index) [ValueError, TypeError] (\<lambda>e. skip)
          else skip)]"

text \<open>
  \<^verbatim>\<open>
  def _validate_invoice_totals(self, data, result):
      try:
          if 'items' in data and isinstance(data['items'], list):
              calculated_subtotal = 0.0
              for item in data['items']:
                  if 'total' in item and item['total'] is not None:
                      calculated_subtotal += float(item['total'])
              if 'subtotal' in data and data['subtotal'] is not None:
                  stated_subtotal = float(data['subtotal'])
                  if abs(calculated_subtotal - stated_subtotal) > 0.01:
                      result['warnings'].append(f"Calculated subtotal (...) doesn't match "
                                                "stated subtotal (...)")
              if all(field in data and data[field] is not None
                     for field in ['subtotal', 'tax_amount', 'total_amount']):
                  expected_total = float(data['subtotal']) + float(data['tax_amount'])
                  actual_total = float(data['total_amount'])
                  if abs(expected_total - actual_total) > 0.01:
                      result['warnings'].append(f"Calculated total (...) doesn't match "
                                                "stated total (...)")
      except (ValueError, TypeError) as e:
          result['warnings'].append(f"Could not validate total calculations: {str(e)}")
  \<close>
  \<open>sum_item_totals\<close> is the loop over the items, \<open>invoice_totals_body\<close> the body of the
  \<^verbatim>\<open>try\<close>.
\<close>

fun sum_item_totals :: "(string \<Rightarrow> real option) \<Rightarrow> pyval list \<Rightarrow> real \<Rightarrow> exc + real" where
  "sum_item_totals float_str [] calculated_subtotal = Inr calculated_subtotal"
| "sum_item_totals float_str (item # rest) calculated_subtotal =
     bind_exc (present item ''total'') (\<lambda>p.
       if p
       then bind_exc (float_field float_str item ''total'') (\<lambda>x.
              sum_item_totals float_str rest (calculated_subtotal + x))
       else sum_item_totals float_str rest calculated_subtotal)"

definition invoice_totals_body :: "(string \<Rightarrow> real option) \<Rightarrow> pyval \<Rightarrow> step" where
  "invoice_totals_body float_str data =
     eval_then (list_field data ''items'') (\<lambda>items_list.
       case items_list of
         None \<Rightarrow> skip
       | Some items \<Rightarrow>
           eval_then (sum_item_totals float_str items 0) (\<lambda>calculated_subtotal.
             steps
               [eval_then (present data ''subtotal'') (\<lambda>p.
                  if p
                  then eval_then (float_field float_str data ''subtotal'') (\<lambda>stated_subtotal.
                         if \<bar>calculated_subtotal - stated_subtotal\<bar> > 0.01
                         then add_warning (SubtotalMismatch calculated_subtotal stated_subtotal)
                         else skip)
                  else skip),
                eval_then (all_present data [''subtotal'', ''tax_amount'', ''total_amount''])
                  (\<lambda>ok.
                  if ok
                  then eval_then (float_field float_str data ''subtotal'') (\<lambda>subtotal.
                       eval_then (float_field float_str data ''tax_amount'') (\<lambda>tax_amount.
                       eval_then (float_field float_str data ''total_amount'') (\<lambda>actual_total.
                         let expected_total = subtotal + tax_amount
                         in if \<bar>expected_total - actual_total\<bar> > 0.01
                            then add_warning (TotalMismatch expected_total actual_total)
                            else skip)))
                  else skip)]))"

definition validate_invoice_totals :: "(string \<Rightarrow> real option) \<Rightarrow> pyval \<Rightarrow> step" where
  "validate_invoice_totals float_str data =
     catch (invoice_totals_body float_str data) [ValueError, TypeError]
       (\<lambda>e. add_warning (CouldNotValidateTotals e))"

text \<open>
  \<^verbatim>\<open>
  def _validate_invoice(self, data, result):
      required_fields = ['invoice_number', 'date', 'vendor', 'total_amount']
      self._check_required_fields(data, required_fields, result)
      if 'date' in data:
          self._validate_field_type(data, 'date', 'date', result)
      if 'due_date' in data:
          self._validate_field_type(data, 'due_date', 'date', result)
          if 'date' in data and data['date'] and data['due_date']:
              try:
                  invoice_date = datetime.strptime(data['date'], '%Y-%m-%d').date()
                  due_date = datetime.strptime(data['due_date'], '%Y-%m-%d').date()
                  if due_date < invoice_date:
                      result['errors'].append("Due date cannot be before invoice date")
              except ValueError:
                  pass
      amount_fields = ['total_amount', 'subtotal', 'tax_amount']
      for field in amount_fields:
          if field in data:
              self._validate_field_type(data, field, 'amount', result)
      if 'items' in data and isinstance(data['items'], list):
          for i, item in enumerate(data['items']):
              self._validate_invoice_item(item, i, result)
      self._validate_invoice_totals(data, result)
  \<close>
\<close>

definition date_less :: "nat \<times> nat \<times> nat \<Rightarrow> nat \<times> nat \<times> nat \<Rightarrow> bool" where
  "date_less a b =
     (case a of (y1, m1, d1) \<Rightarrow> case b of (y2, m2, d2) \<Rightarrow>
        y1 < y2 \<or> (y1 = y2 \<and> (m1 < m2 \<or> (m1 = m2 \<and> d1 < d2))))"

definition both_dates_set :: "pyval \<Rightarrow> exc + bool" where
  "both_dates_set data =
     bind_exc (py_contains data ''date'') (\<lambda>has.
       if \<not> has then Inr False
       else bind_exc (py_getitem data ''date'') (\<lambda>d.
              if \<not> py_truthy d then Inr False
              else bind_exc (py_getitem data ''due_date'') (\<lambda>dd. Inr (py_truthy dd))))"

definition due_date_order :: "pyval \<Rightarrow> step" where
  "due_date_order data =
     eval_then (bind_exc (py_getitem data ''date'') (\<lambda>d. py_strptime d fmt_Ymd))
       (\<lambda>invoice_date.
     eval_then (bind_exc (py_getitem data ''due_date'') (\<lambda>d. py_strptime d fmt_Ymd))
       (\<lambda>due_date.
       if date_less due_date invoice_date then add_error DueDateBeforeInvoiceDate else skip))"

definition validate_invoice :: "int \<Rightarrow> (string \<Rightarrow> real option) \<Rightarrow> pyval \<Rightarrow> step" where
  "validate_invoice current_year float_str data =
     steps
       [check_required_fields data [''invoice_number'', ''date'', ''vendor'', ''total_amount''],
        when_in data ''date'' (validate_field_type current_year float_str data ''date'' ''date''),
        when_in data ''due_date''
          (steps
             [validate_field_type current_year float_str data ''due_date'' ''date'',
              eval_then (both_dates_set data) (\<lambda>both.
                if both then catch (due_date_order data) [ValueError] (\<lambda>e. skip) else skip)]),
        for_each (\<lambda>field.
          when_in data field (validate_field_type current_year float_str data field ''amount''))
          [''total_amount'', ''subtotal'', ''tax_amount''],
        eval_then (list_field data ''items'') (\<lambda>items_list.
          case items_list of
            Some items \<Rightarrow> for_each_indexed (\<lambda>i item. validate_invoice_item float_str item i) 0 items
          | None \<Rightarrow> skip),
        validate_invoice_totals float_str data]"

text \<open>
  \<^verbatim>\<open>
  def _validate_bill_calculations(self, data, result):
      try:
          required_fields = ['previous_balance', 'current_charges', 'total_amount_due']
          if all(field in data and data[field] is not None for field in required_fields):
              previous = float(data['previous_balance'])
              current = float(data['current_charges'])
              payments = float(data.get('payments', 0))
              stated_total = float(data['total_amount_due'])
              expected_total = previous + current - payments
              if abs(expected_total - stated_total) > 0.01:
                  result['warnings'].append(f"Calculated total due (...) doesn't match "
                                            "stated total (...)")
      except (ValueError, TypeError) as e:
          result['warnings'].append(f"Could not validate bill calculations: {str(e)}")
  \<close>
\<close>

definition bill_calculations_body :: "(string \<Rightarrow> real option) \<Rightarrow> pyval \<Rightarrow> step" where
  "bill_calculations_body float_str data =
     eval_then (all_present data [''previous_balance'', ''current_charges'', ''total_amount_due''])
       (\<lambda>ok.
       if ok
       then eval_then (float_field float_str data ''previous_balance'') (\<lambda>previous.
            eval_then (float_field float_str data ''current_charges'') (\<lambda>current.
            eval_then (bind_exc (py_get data ''payments'' (PInt 0)) (py_float float_str))
              (\<lambda>payments.
            eval_then (float_field float_str data ''total_amount_due'') (\<lambda>stated_total.
              let expected_total = previous + current - payments
              in if \<bar>expected_total - stated_total\<bar> > 0.01
                 then add_warning (TotalDueMismatch expected_total stated_total)
                 else skip))))
       else skip)"

definition validate_bill_calculations :: "(string \<Rightarrow> real option) \<Rightarrow> pyval \<Rightarrow> step" where
  "validate_bill_calculations float_str data =
     catch (bill_calculations_body float_str data) [ValueError, TypeError]
       (\<lambda>e. add_warning (CouldNotValidateBill e))"

text \<open>
  \<^verbatim>\<open>
  def _validate_bill(self, data, result):
      required_fields = ['bill_number', 'statement_date', 'service_provider',
                         'total_amount_due']
      self._check_required_fields(data, required_fields, result)
      date_fields = ['statement_date', 'due_date']
      for field in date_fields:
          if field in data:
              self._validate_field_type(data, field, 'date', result)
      amount_fields = ['total_amount_due', 'previous_balance', 'current_charges',
                       'payments', 'minimum_payment']
      for field in amount_fields:
          if field in data:
              self._validate_field_type(data, field, 'amount', result)
      self._validate_bill_calculations(data, result)
  \<close>
\<close>

definition validate_bill :: "int \<Rightarrow> (string \<Rightarrow> real option) \<Rightarrow> pyval \<Rightarrow> step" where
  "validate_bill current_year float_str data =
     steps
       [check_required_fields data
          [''bill_number'', ''statement_date'', ''service_provider'', ''total_amount_due''],
        for_each (\<lambda>field.
          when_in data field (validate_field_type current_year float_str data field ''date''))
          [''statement_date'', ''due_date''],
        for_each (\<lambda>field.
          when_in data field (validate_field_type current_year float_str data field ''amount''))
          [''total_amount_due'', ''previous_balance'', ''current_charges'', ''payments'',
           ''minimum_payment''],
        validate_bill_calculations float_str data]"

text \<open>
  \<^verbatim>\<open>
  def _validate_medication(self, medication, index, result):
      required_med_fields = ['name', 'strength', 'quantity', 'directions']
      for field in required_med_fields:
          if field not in medication or not medication[field]:
              result['errors'].append(f"Medication {index}: missing required field '{field}'")

  def _validate_prescription(self, data, result):
      required_fields = ['prescription_number', 'date_prescribed', 'doctor', 'patient',
                         'medications']
      self._check_required_fields(data, required_fields, result)
      date_fields = ['date_prescribed', 'date_filled']
      for field in date_fields:
          if field in data:
              self._validate_field_type(data, field, 'date', result)
      if 'medications' in data and isinstance(data['medications'], list):
          if not data['medications']:
              result['errors'].append("At least one medication is required")
          else:
              for i, medication in enumerate(data['medications']):
                  self._validate_medication(medication, i, result)
      cost_fields = ['total_cost', 'insurance_covered', 'patient_pay']
      for field in cost_fields:
          if field in data:
              self._validate_field_type(data, field, 'amount', result)
  \<close>
\<close>

definition validate_medication :: "pyval \<Rightarrow> nat \<Rightarrow> step" where
  "validate_medication medication index =
     for_each (\<lambda>field.
       eval_then
         (bind_exc (py_contains medication field) (\<lambda>has.
            if \<not> has then Inr True
            else bind_exc (py_getitem medication field) (\<lambda>v. Inr (\<not> py_truthy v))))
         (\<lambda>missing. if missing then add_error (MedicationMissingField index field) else skip))
       [''name'', ''strength'', ''quantity'', ''directions'']"

definition validate_prescription :: "int \<Rightarrow> (string \<Rightarrow> real option) \<Rightarrow> pyval \<Rightarrow> step" where
  "validate_prescription current_year float_str data =
     steps
       [check_required_fields data
          [''prescription_number'', ''date_prescribed'', ''doctor'', ''patient'',
           ''medications''],
        for_each (\<lambda>field.
          when_in data field (validate_field_type current_year float_str data field ''date''))
          [''date_prescribed'', ''date_filled''],
        eval_then (list_field data ''medications'') (\<lambda>meds.
          case meds of
            Some medications \<Rightarrow>
              if medications = [] then add_error AtLeastOneMedication
              else for_each_indexed (\<lambda>i medication. validate_medication medication i) 0
                     medications
          | None \<Rightarrow> skip),
        for_each (\<lambda>field.
          when_in data field (validate_field_type current_year float_str data field ''amount''))
          [''total_cost'', ''insurance_covered'', ''patient_pay'']]"

text \<open>
  \<^verbatim>\<open>
  def _validate_common_fields(self, data, result):
      if 'currency' in data:
          self._validate_field_type(data, 'currency', 'currency', result)
  \<close>
\<close>

definition validate_common_fields :: "int \<Rightarrow> (string \<Rightarrow> real option) \<Rightarrow> pyval \<Rightarrow> step" where
  "validate_common_fields current_year float_str data =
     when_in data ''currency''
       (validate_field_type current_year float_str data ''currency'' ''currency'')"

subsection \<open>validate\_document\<close>

text \<open>
  \<^verbatim>\<open>
  def validate_document(self, data, doc_type):
      validation_result = {'is_valid': True, 'errors': [], 'warnings': [],
                           'field_validations': {}}
      try:
          if doc_type == 'invoice':
              self._validate_invoice(data, validation_result)
          elif doc_type == 'bill':
              self._validate_bill(data, validation_result)
          elif doc_type == 'prescription':
              self._validate_prescription(data, validation_result)
          self._validate_common_fields(data, validation_result)
          validation_result['is_valid'] = len(validation_result['errors']) == 0
      except Exception as e:
          validation_result['errors'].append(f"Validation error: {str(e)}")
          validation_result['is_valid'] = False
      return validation_result
  \<close>
\<close>

definition initial_result :: validation_result where
  "initial_result = \<lparr>is_valid = True, errors = [], warnings = [], field_validations = []\<rparr>"

definition validate_document_body ::
    "int \<Rightarrow> (string \<Rightarrow> real option) \<Rightarrow> pyval \<Rightarrow> string \<Rightarrow> step" where
  "validate_document_body current_year float_str data doc_type =
     steps
       [if doc_type = ''invoice'' then validate_invoice current_year float_str data
        else if doc_type = ''bill'' then validate_bill current_year float_str data
        else if doc_type = ''prescription'' then validate_prescription current_year float_str data
        else skip,
        validate_common_fields current_year float_str data,
        (\<lambda>r. (None, r\<lparr>is_valid := (length (errors r) = 0)\<rparr>))]"

definition validate_document ::
    "int \<Rightarrow> (string \<Rightarrow> real option) \<Rightarrow> pyval \<Rightarrow> string \<Rightarrow> validation_result" where
  "validate_document current_year float_str data doc_type =
     (case validate_document_body current_year float_str data doc_type initial_result of
        (None, r) \<Rightarrow> r
      | (Some e, r) \<Rightarrow> r\<lparr>errors := errors r @ [ValidationError e], is_valid := False\<rparr>)"

text \<open>
  A parser for plain decimal strings, to run the validator on concrete records:
  optional whitespace around an optional sign, digits, and optionally a point and more
  digits. On these strings it is what \<^verbatim>\<open>float\<close> returns. It is \<open>None\<close> on every other
  string: that is right where \<^verbatim>\<open>float\<close> raises ValueError (as on \<^verbatim>\<open>N/A\<close>), and the
  other strings that \<^verbatim>\<open>float\<close> accepts (exponents, underscores, \<^verbatim>\<open>inf\<close>, \<^verbatim>\<open>nan\<close>)
  are not covered. The general theorems hold for every parser.
\<close>

fun digits_value :: "string \<Rightarrow> nat \<Rightarrow> nat" where
  "digits_value [] acc = acc"
| "digits_value (c # cs) acc = digits_value cs (10 * acc + digit_val c)"

definition unsigned_decimal :: "string \<Rightarrow> real option" where
  "unsigned_decimal s =
     (let whole = takeWhile py_isdigit s;
          rest = dropWhile py_isdigit s
      in if whole = [] then None
         else if rest = [] then Some (real (digits_value whole 0))
         else if hd rest = CHR ''.'' \<and> list_all py_isdigit (tl rest)
         then Some (real (digits_value whole 0)
                    + real (digits_value (tl rest) 0) / 10 ^ length (tl rest))
         else None)"

definition plain_decimal :: "string \<Rightarrow> real option" where
  "plain_decimal s =
     (case py_strip s of
        [] \<Rightarrow> None
      | c # cs \<Rightarrow>
          if c = CHR ''-'' then map_option uminus (unsigned_decimal cs)
          else if c = CHR ''+'' then unsigned_decimal cs
          else unsigned_decimal (c # cs))"

text \<open>Records to run the validator on.\<close>

definition ex_item :: pyval where
  "ex_item = PDict [(''description'', PStr ''x''), (''quantity'', PInt 10),
                    (''unit_price'', PFloat 150), (''total'', PFloat 1400)]"

definition ex_invoice :: pyval where
  "ex_invoice = PDict [(''invoice_number'', PStr ''INV-1''), (''date'', PStr ''2024-03-15''),
                       (''vendor'', PStr ''ABC''), (''total_amount'', PInt 1400),
                       (''items'', PList [ex_item])]"

definition ex_bad_item :: pyval where
  "ex_bad_item = PDict [(''description'', PStr ''x''), (''quantity'', PStr ''ten''),
                        (''unit_price'', PInt 5), (''total'', PInt 50)]"

definition ex_overflow_item :: pyval where
  "ex_overflow_item = PDict [(''description'', PStr ''x''), (''quantity'', PInt (2 ^ 1024)),
                             (''unit_price'', PStr ''abc''), (''total'', PInt 1)]"

definition ex_no_items :: pyval where
  "ex_no_items = PDict [(''invoice_number'', PStr ''INV-1''), (''subtotal'', PStr ''N/A'')]"

definition ex_bad_subtotal :: pyval where
  "ex_bad_subtotal =
     PDict [(''invoice_number'', PStr ''INV-1''), (''date'', PStr ''2024-03-15''),
            (''vendor'', PStr ''ABC''), (''total_amount'', PInt 100),
            (''subtotal'', PStr ''N/A''), (''items'', PList [])]"

text \<open>
  A step that raises nothing and leaves the warnings as they are (a notion of the proofs
  below, not of the source).
\<close>

definition quiet :: "step \<Rightarrow> bool" where
  "quiet s = (\<forall>r. fst (s r) = None \<and> warnings (snd (s r)) = warnings r)"

section \<open>Properties\<close>

subsection \<open>Evaluation rules\<close>

lemmas char_eval = py_isspace_def py_isdigit_def py_lower_char_def ci_test_def not_newline_def
lemmas rx_eval = rx_ilit_def rx_lit_def rx_plus_def rx_opt_def rx_s_def rx_d_def rx_dot_def

subsection \<open>Classification\<close>

lemma max_key_fst: "fst (max_key best xs) \<in> insert (fst best) (fst ` set xs)"
  by (induction xs arbitrary: best) auto

lemma max_key_valid:
  "fst (max_key (''invoice'', a) [(''bill'', b), (''prescription'', p)]) \<in> set valid_types"
  using max_key_fst [of "(''invoice'', a)" "[(''bill'', b), (''prescription'', p)]"]
  by (simp add: valid_types_def)

lemma heuristics_type:
  assumes "classify_by_heuristics doc = (Some t, c)"
  shows "t \<in> set valid_types"
proof -
  from assms obtain a b p :: nat
    where "t = fst (max_key (''invoice'', a) [(''bill'', b), (''prescription'', p)])"
    unfolding classify_by_heuristics_def Let_def
    by (auto split: if_splits simp del: max_key.simps)
  then show ?thesis by (simp only: max_key_valid)
qed

lemma heuristics_conf:
  assumes "classify_by_heuristics doc = (None, c)"
  shows "c < 0.6"
  using assms unfolding classify_by_heuristics_def Let_def
  by (auto split: if_splits simp del: max_key.simps)

lemma gemini_type: "fst (classify_with_gemini doc ge) \<in> set valid_types"
  by (auto simp: classify_with_gemini_def valid_types_def Let_def
      split: sum.splits pyval.splits)

lemma valid_types_nonempty: "t \<in> set valid_types \<Longrightarrow> t \<noteq> []"
  by (auto simp: valid_types_def)

lemma heuristics_truthy:
  assumes "classify_by_heuristics doc = (ht, hc)" and "0.6 \<le> hc"
  shows "truthy_type ht"
proof (cases ht)
  case None
  with assms show ?thesis using heuristics_conf [of doc hc] by simp
next
  case (Some t)
  with assms have "t \<in> set valid_types" by (simp add: heuristics_type)
  with Some show ?thesis by (simp add: truthy_type_def valid_types_nonempty)
qed

lemma classify_cases:
  assumes H: "classify_by_heuristics doc = (ht, hc)"
  shows "fst (classify doc ge) = (ht, hc) \<and> truthy_type ht
       \<or> (\<exists>g. ge = Some g \<and> fst (classify doc ge) =
             (Some (fst (classify_with_gemini doc g)), snd (classify_with_gemini doc g)))
       \<or> fst (classify doc ge) = (Some ''invoice'', 0.3)"
  unfolding classify_def H Let_def
  by (cases ge) (auto split: prod.splits)

text \<open>The heuristics on two concrete texts.\<close>

lemma heuristics_empty: "classify_by_heuristics [] = (None, 0)"
  by (simp add: classify_by_heuristics_def py_lower_def invoice_keywords_def bill_keywords_def
      prescription_keywords_def pattern_matching_def invoice_patterns_def bill_patterns_def
      prescription_patterns_def rx_eval score_get_def)

lemma ex_lower: "py_lower ''rx 1 mg tablet'' = ''rx 1 mg tablet''"
  by (simp add: py_lower_def py_lower_char_def)

lemma ex_kw_invoice: "count_keywords ''rx 1 mg tablet'' invoice_keywords = 0"
  by (simp add: invoice_keywords_def)

lemma ex_kw_bill: "count_keywords ''rx 1 mg tablet'' bill_keywords = 0"
  by (simp add: bill_keywords_def)

lemma ex_kw_prescription: "count_keywords ''rx 1 mg tablet'' prescription_keywords = 3"
  by (simp add: prescription_keywords_def)

lemma ex_pat_invoice: "pattern_score ''rx 1 mg tablet'' invoice_patterns = 0"
  by (simp add: invoice_patterns_def rx_eval char_eval)

lemma ex_pat_bill: "pattern_score ''rx 1 mg tablet'' bill_patterns = 0"
  by (simp add: bill_patterns_def rx_eval char_eval)

lemma ex_pat_prescription: "pattern_score ''rx 1 mg tablet'' prescription_patterns = 4"
  by (simp add: prescription_patterns_def rx_eval char_eval)

lemma ex_heuristics:
  "classify_by_heuristics ''rx 1 mg tablet'' = (Some ''prescription'', 7 / 10)"
  by (simp add: classify_by_heuristics_def ex_lower ex_kw_invoice ex_kw_bill
      ex_kw_prescription pattern_matching_def ex_pat_invoice ex_pat_bill ex_pat_prescription
      score_get_def Let_def)

lemma gemini_answers_bill: "classify_with_gemini [] (answers '' Bill'') = (''bill'', 0.75)"
  by (simp add: classify_with_gemini_def answers_def py_get_def py_strip_def py_lower_def
      char_eval valid_types_def)

lemma gemini_answers_invoice:
  "classify_with_gemini ''rx 1 mg tablet'' (answers ''invoice'') = (''invoice'', 0.75)"
  by (simp add: classify_with_gemini_def answers_def py_get_def py_strip_def py_lower_def
      char_eval valid_types_def)

text \<open>
  C3, as stated, fails where the heuristic confidence is exactly 0.7. The text
  \<^verbatim>\<open>rx 1 mg tablet\<close> scores 7 for prescription (the keywords rx, mg, tablet and two
  patterns) and 0 for the other types, so its heuristic confidence is
  \<open>min 0.9 (7 / 10) = 0.7\<close>, which is not greater than 0.7. A collaborator is supplied
  whose answer \<^verbatim>\<open>invoice\<close> would have confidence 0.75, more than 0.7; yet
  \<open>classify\<close> sends it no prompt and returns the heuristic result.
\<close>

theorem classify_fallback_counterexample:
  "classify_by_heuristics ''rx 1 mg tablet'' = (Some ''prescription'', 0.7)
   \<and> classify_with_gemini ''rx 1 mg tablet'' (answers ''invoice'') = (''invoice'', 0.75)
   \<and> classify ''rx 1 mg tablet'' (Some (answers ''invoice''))
       = ((Some ''prescription'', 0.7), [])"
  by (simp add: classify_def ex_heuristics gemini_answers_invoice truthy_type_def)

text \<open>
  C3, amended. With \<open>(ht, hc)\<close> the heuristic result for the text: when \<open>hc\<close> is
  greater than 0.7, \<open>classify\<close> returns the heuristic result and asks nobody. When \<open>hc\<close>
  is strictly below 0.7 and a collaborator is supplied, the collaborator is asked
  exactly once, and its result is returned exactly when its confidence exceeds \<open>hc\<close>;
  otherwise the heuristic result is returned (or \<^verbatim>\<open>('invoice', 0.3)\<close> when the
  heuristics gave no type). When \<open>hc\<close> is exactly 0.7, the collaborator is not asked
  and the heuristic result is returned.
\<close>

theorem classify_fallback:
  assumes H: "classify_by_heuristics doc = (ht, hc)"
  shows "(0.7 < hc \<longrightarrow> classify doc ge = ((ht, hc), []) \<and> ht \<noteq> None)
       \<and> (hc = 0.7 \<longrightarrow> classify doc ge = ((ht, hc), []) \<and> ht \<noteq> None)
       \<and> (hc < 0.7 \<longrightarrow> (\<forall>g. ge = Some g \<longrightarrow>
             snd (classify doc ge) = [get_classification_prompt doc]
           \<and> (snd (classify_with_gemini doc g) > hc \<longrightarrow>
                fst (classify doc ge) =
                  (Some (fst (classify_with_gemini doc g)), snd (classify_with_gemini doc g)))
           \<and> (\<not> snd (classify_with_gemini doc g) > hc \<longrightarrow>
                fst (classify doc ge) =
                  (if truthy_type ht then (ht, hc) else (Some ''invoice'', 0.3)))))"
proof (intro conjI impI allI)
  assume "0.7 < hc"
  then have "truthy_type ht" using heuristics_truthy [OF H] by simp
  with \<open>0.7 < hc\<close> show "classify doc ge = ((ht, hc), [])"
    by (simp add: classify_def H)
  from \<open>truthy_type ht\<close> show "ht \<noteq> None" by (cases ht) (simp_all add: truthy_type_def)
next
  assume "hc = 0.7"
  then have "truthy_type ht" using heuristics_truthy [OF H] by simp
  with \<open>hc = 0.7\<close> show "classify doc ge = ((ht, hc), [])"
    by (cases ge) (simp_all add: classify_def H)
  from \<open>truthy_type ht\<close> show "ht \<noteq> None" by (cases ht) (simp_all add: truthy_type_def)
next
  fix g assume "hc < 0.7" "ge = Some g"
  then show "snd (classify doc ge) = [get_classification_prompt doc]"
    by (cases "classify_with_gemini doc g") (simp add: classify_def H Let_def)
next
  fix g assume "hc < 0.7" "ge = Some g" "snd (classify_with_gemini doc g) > hc"
  then show "fst (classify doc ge) =
      (Some (fst (classify_with_gemini doc g)), snd (classify_with_gemini doc g))"
    by (cases "classify_with_gemini doc g") (simp add: classify_def H Let_def)
next
  fix g assume "hc < 0.7" "ge = Some g" "\<not> snd (classify_with_gemini doc g) > hc"
  then show "fst (classify doc ge) =
      (if truthy_type ht then (ht, hc) else (Some ''invoice'', 0.3))"
    by (cases "classify_with_gemini doc g") (simp add: classify_def H Let_def)
qed

theorem classify_fallback_witness:
  "classify_by_heuristics [] = (None, 0)
   \<and> classify [] (Some (answers '' Bill'')) = ((Some ''bill'', 0.75), [ClassificationPrompt []])"
  using classify_fallback [OF heuristics_empty, of "Some (answers '' Bill'')"]
  by (simp add: heuristics_empty gemini_answers_bill get_classification_prompt_def prod_eq_iff)

text \<open>
  C10. For every text and every collaborator (absent, raising, or returning any
  Python value), the document type that \<open>classify\<close> returns is not \<^verbatim>\<open>None\<close>: it is
  one of \<^verbatim>\<open>invoice\<close>, \<^verbatim>\<open>bill\<close>, \<^verbatim>\<open>prescription\<close>.
\<close>

theorem classify_type:
  "\<exists>t. fst (fst (classify doc ge)) = Some t \<and> t \<in> {''invoice'', ''bill'', ''prescription''}"
proof -
  obtain ht hc where H: "classify_by_heuristics doc = (ht, hc)"
    by (cases "classify_by_heuristics doc")
  from classify_cases [OF H, of ge]
  consider (heur) "fst (classify doc ge) = (ht, hc)" "truthy_type ht"
    | (gem) g where "ge = Some g" "fst (classify doc ge) =
         (Some (fst (classify_with_gemini doc g)), snd (classify_with_gemini doc g))"
    | (dflt) "fst (classify doc ge) = (Some ''invoice'', 0.3)"
    by blast
  then have "\<exists>t. fst (fst (classify doc ge)) = Some t \<and> t \<in> set valid_types"
  proof cases
    case heur
    from heur(2) obtain t where t: "ht = Some t"
      by (cases ht) (auto simp: truthy_type_def)
    with H have "t \<in> set valid_types" by (simp add: heuristics_type)
    with heur(1) t show ?thesis by simp
  next
    case gem
    then show ?thesis using gemini_type [of doc g] by simp
  next
    case dflt
    then show ?thesis by (simp add: valid_types_def)
  qed
  then show ?thesis by (simp add: valid_types_def)
qed

theorem classify_type_witness:
  "fst (fst (classify ''rx 1 mg tablet'' None)) = Some ''prescription''
   \<and> (\<exists>t. fst (fst (classify [] (Some (\<lambda>p n. Inl OtherException)))) = Some t
          \<and> t \<in> {''invoice'', ''bill'', ''prescription''})"
  using classify_type [of "[]" "Some (\<lambda>p n. Inl OtherException)"]
  by (simp add: classify_def ex_heuristics truthy_type_def)


subsection \<open>Self-consistency extraction\<close>

lemma extraction_attempt_index:
  "extraction_attempt model json_loads doc doc_type schema i = Inr a \<Longrightarrow> att_attempt a = i + 1"
  by (auto simp: extraction_attempt_def failed_attempt_def Let_def
      split: option.splits sum.splits exc.splits)

lemma run_attempts_all:
  assumes "\<forall>i \<in> set idxs. \<exists>a. extraction_attempt model json_loads doc doc_type schema i = Inr a"
  shows "run_attempts model json_loads doc doc_type schema idxs acc
         = Inr (acc @ map (\<lambda>i. projr (extraction_attempt model json_loads doc doc_type schema i)) idxs)"
  using assms by (induction idxs arbitrary: acc) auto

lemma attempt_down:
  "extraction_attempt (\<lambda>k p m. ApiRaises ''down'') j doc doc_type schema i
   = Inr (failed_attempt ''down'' i)"
  by (simp add: extraction_attempt_def call_gemini_def Let_def)

lemma upt2: "[0..<2] = [0, 1]"
  by (simp add: upt_rec)

lemma upt3: "[0..<3] = [0, 1, 2]"
  by (simp add: upt_rec)

lemma handled_failure_iff:
  "handled_failure model json_loads doc doc_type schema i
   \<longleftrightarrow> (\<exists>a. extraction_attempt model json_loads doc doc_type schema i = Inr a
            \<and> \<not> att_success a)"
  by (auto simp: handled_failure_def extraction_attempt_def failed_attempt_def Let_def
      split: option.splits sum.splits exc.splits)

lemma attempt_escapes:
  "extraction_attempt (\<lambda>k p m. ApiText (Some ''[['')) (\<lambda>s. Inl OtherException) doc doc_type
     schema i = Inl OtherException"
  by (simp add: extraction_attempt_def call_gemini_def Let_def)

text \<open>
  C4, as stated, fails on three points. With a service that raises on every call and a
  run count of 2, both attempts fail and the function returns the failure dictionary,
  which has the keys \<^verbatim>\<open>data\<close>, \<^verbatim>\<open>success\<close>, \<^verbatim>\<open>error\<close> and \<^verbatim>\<open>results\<close> only: there is
  no \<^verbatim>\<open>successful_attempts\<close> in it (nor \<^verbatim>\<open>total_attempts\<close>, nor \<^verbatim>\<open>consistency_rate\<close>),
  so it is not 0. With a run count of 0 the configured count (here 3) is used, so
  the log has 3 entries, not 0. And when \<^verbatim>\<open>json.loads\<close> raises an exception that is no
  JSONDecodeError on the response of the first attempt, no attempt succeeds, yet
  nothing is returned: the loop catches JSONDecodeError only and has no outer handler,
  so the exception leaves the function and the log is lost.
\<close>

theorem self_consistency_counterexample:
  "self_consistency_extraction (\<lambda>k p m. ApiRaises ''down'') (\<lambda>s. Inl JSONDecodeError) 3
      [] ''invoice'' (PDict []) (Some 2)
   = Inr \<lparr>sc_data = PNone, sc_success = False,
          sc_error = Some ''All extraction attempts failed'',
          sc_results = [failed_attempt ''down'' 0, failed_attempt ''down'' 1],
          consistency_rate = None, successful_attempts = None, total_attempts = None\<rparr>
   \<and> map_sum id (length \<circ> sc_results)
       (self_consistency_extraction (\<lambda>k p m. ApiRaises ''down'') (\<lambda>s. Inl JSONDecodeError) 3
          [] ''invoice'' (PDict []) (Some 0)) = Inr 3
   \<and> self_consistency_extraction (\<lambda>k p m. ApiText (Some ''[['')) (\<lambda>s. Inl OtherException) 3
        [] ''invoice'' (PDict []) (Some 2) = Inl OtherException"
  by (simp add: self_consistency_extraction_def effective_runs_def upt2 upt3 attempt_down
      attempt_escapes failed_attempt_def)

text \<open>
  C4, amended. Let the number of runs be the given count, or the configured count when
  none or 0 is given. An attempt fails in a way the loop handles (\<open>handled_failure\<close>)
  when the call of the service reports an error, or when \<^verbatim>\<open>json.loads\<close> raises
  JSONDecodeError on the response and either no JSON can be salvaged from it or
  \<^verbatim>\<open>json.loads\<close> raises on the salvaged text; that is exactly when the attempt puts a
  failed entry into the log. When every attempt fails in such a way, the function
  returns: data null, success false, the error \<^verbatim>\<open>All extraction attempts failed\<close>, and
  the full log, one failed entry per run, numbered from 1 in order. The result has no
  \<^verbatim>\<open>successful_attempts\<close>, \<^verbatim>\<open>total_attempts\<close> or \<^verbatim>\<open>consistency_rate\<close>. Nothing is said
  of a run in which \<^verbatim>\<open>json.loads\<close> raises another exception on a response.
\<close>

theorem self_consistency_all_failed:
  assumes fails: "\<forall>i. i < nat (effective_runs config_runs n) \<longrightarrow>
      handled_failure model json_loads doc doc_type schema i"
  shows "\<exists>log. self_consistency_extraction model json_loads config_runs doc doc_type schema n
           = Inr \<lparr>sc_data = PNone, sc_success = False,
                  sc_error = Some ''All extraction attempts failed'', sc_results = log,
                  consistency_rate = None, successful_attempts = None, total_attempts = None\<rparr>
         \<and> length log = nat (effective_runs config_runs n)
         \<and> (\<forall>i. i < length log \<longrightarrow>
               extraction_attempt model json_loads doc doc_type schema i = Inr (log ! i)
               \<and> att_attempt (log ! i) = i + 1 \<and> \<not> att_success (log ! i))"
proof -
  let ?m = "nat (effective_runs config_runs n)"
  let ?f = "\<lambda>i. projr (extraction_attempt model json_loads doc doc_type schema i)"
  let ?log = "map ?f [0..<?m]"
  have failed: "\<exists>a. extraction_attempt model json_loads doc doc_type schema i = Inr a
                   \<and> \<not> att_success a" if "i < ?m" for i
    using fails that unfolding handled_failure_iff by blast
  have each: "extraction_attempt model json_loads doc doc_type schema i = Inr (?f i)
              \<and> \<not> att_success (?f i)" if "i < ?m" for i
    using failed [OF that] by force
  have all: "\<forall>i \<in> set [0..<?m].
      \<exists>a. extraction_attempt model json_loads doc doc_type schema i = Inr a"
  proof
    fix i assume "i \<in> set [0..<?m]"
    then have "i < ?m" by simp
    from failed [OF this] show "\<exists>a. extraction_attempt model json_loads doc doc_type schema i = Inr a"
      by blast
  qed
  have run: "run_attempts model json_loads doc doc_type schema [0..<?m] [] = Inr ?log"
    using run_attempts_all [OF all, of "[]"] by simp
  have none: "filter att_success ?log = []"
    using each by (auto simp: filter_empty_conv)
  have res: "self_consistency_extraction model json_loads config_runs doc doc_type schema n
           = Inr \<lparr>sc_data = PNone, sc_success = False,
                  sc_error = Some ''All extraction attempts failed'', sc_results = ?log,
                  consistency_rate = None, successful_attempts = None, total_attempts = None\<rparr>"
    unfolding self_consistency_extraction_def Let_def run using none by simp
  have ent: "extraction_attempt model json_loads doc doc_type schema i = Inr (?log ! i)
               \<and> att_attempt (?log ! i) = i + 1 \<and> \<not> att_success (?log ! i)"
    if "i < length ?log" for i
    using each [of i] that extraction_attempt_index [of model json_loads doc doc_type schema i "?f i"]
    by simp
  show ?thesis
    using res ent by (intro exI [of _ ?log]) simp
qed

theorem self_consistency_all_failed_witness:
  "handled_failure (\<lambda>k p m. ApiRaises ''down'') (\<lambda>s. Inl JSONDecodeError)
      [] ''invoice'' (PDict []) 0
   \<and> handled_failure (\<lambda>k p m. ApiRaises ''down'') (\<lambda>s. Inl JSONDecodeError)
      [] ''invoice'' (PDict []) 1
   \<and> (\<exists>log. self_consistency_extraction (\<lambda>k p m. ApiRaises ''down'') (\<lambda>s. Inl JSONDecodeError) 3
            [] ''invoice'' (PDict []) (Some 2)
           = Inr \<lparr>sc_data = PNone, sc_success = False,
                  sc_error = Some ''All extraction attempts failed'', sc_results = log,
                  consistency_rate = None, successful_attempts = None, total_attempts = None\<rparr>
         \<and> length log = 2)"
  using self_consistency_all_failed [of 3 "Some 2" "\<lambda>k p m. ApiRaises ''down''"
      "\<lambda>s. Inl JSONDecodeError" "[]" "''invoice''" "PDict []"]
  by (auto simp: handled_failure_def call_gemini_def effective_runs_def less_Suc_eq numeral_2_eq_2)

subsection \<open>Default confidence scores\<close>

text \<open>
  C5. On a failure of the assessment (here: the service raises) the result is
  \<open>default_confidence_scores\<close> of the record. For the record
  \<^verbatim>\<open>{"invoice_number": "INV-1", "tags": ["a"]}\<close> the walk of the specification finds
  the leaf paths \<^verbatim>\<open>invoice_number\<close> and \<^verbatim>\<open>tags.0\<close>, but the source gives a score to
  \<^verbatim>\<open>invoice_number\<close> only: the loop over a list descends into the elements that are
  dictionaries or lists and has no branch for a scalar element.
\<close>

theorem default_scores_skip_sequence_scalars:
  "default_confidence_scores
     (PDict [(''invoice_number'', PStr ''INV-1''), (''tags'', PList [PStr ''a''])])
     = [(''invoice_number'', 0.5)]
   \<and> spec_leaf_paths
       (PDict [(''invoice_number'', PStr ''INV-1''), (''tags'', PList [PStr ''a''])]) []
     = [''invoice_number'', ''tags.0'']
   \<and> assess_confidence (\<lambda>k p m. ApiRaises ''down'') (\<lambda>s. Inl JSONDecodeError) []
        (PDict [(''invoice_number'', PStr ''INV-1''), (''tags'', PList [PStr ''a''])]) ''invoice''
     = Inr [(''invoice_number'', 0.5)]"
  by (simp add: default_confidence_scores_def is_container_def assess_confidence_def
      assess_confidence_body_def call_gemini_def digit_char_def)

subsection \<open>Correction of validation errors\<close>

text \<open>
  C9. For every service, parser, record and error list, \<open>fix_validation_errors\<close>
  returns a value and raises nothing. It returns the original record when the service
  raised and when parsing the response raised (a \<open>JSONDecodeError\<close> or any other
  exception); when the response parsed, it returns the parsed value.
\<close>

theorem fix_validation_errors_safe:
  "(\<exists>v. fix_validation_errors model json_loads data errs = Inr v)
   \<and> (\<forall>msg. model 0 (get_validation_prompt data errs) None = ApiRaises msg \<longrightarrow>
        fix_validation_errors model json_loads data errs = Inr data)
   \<and> (\<forall>t e. model 0 (get_validation_prompt data errs) None = ApiText t \<longrightarrow>
        json_loads (case t of None \<Rightarrow> [] | Some s \<Rightarrow> s) = Inl e \<longrightarrow>
        fix_validation_errors model json_loads data errs = Inr data)
   \<and> (\<forall>t v. model 0 (get_validation_prompt data errs) None = ApiText t \<longrightarrow>
        json_loads (case t of None \<Rightarrow> [] | Some s \<Rightarrow> s) = Inr v \<longrightarrow>
        fix_validation_errors model json_loads data errs = Inr v)"
  by (auto simp: fix_validation_errors_def fix_validation_errors_body_def call_gemini_def
      Let_def split: sum.splits exc.splits api_result.splits option.splits)

theorem fix_validation_errors_safe_witness:
  "fix_validation_errors (\<lambda>k p m. ApiRaises ''down'') (\<lambda>s. Inl JSONDecodeError)
      (PDict [(''date'', PStr ''x'')]) [''bad date''] = Inr (PDict [(''date'', PStr ''x'')])
   \<and> fix_validation_errors (\<lambda>k p m. ApiText (Some ''oops'')) (\<lambda>s. Inl OtherException)
      (PDict [(''date'', PStr ''x'')]) [''bad date''] = Inr (PDict [(''date'', PStr ''x'')])"
  using fix_validation_errors_safe [of "\<lambda>k p m. ApiRaises ''down''" "\<lambda>s. Inl JSONDecodeError"
      "PDict [(''date'', PStr ''x'')]" "[''bad date'']"]
    fix_validation_errors_safe [of "\<lambda>k p m. ApiText (Some ''oops'')" "\<lambda>s. Inl OtherException"
      "PDict [(''date'', PStr ''x'')]" "[''bad date'']"]
  by simp


subsection \<open>Field confidence\<close>

lemma rx_rep_2: "rx_rep 2 r = Seq r (Seq r Eps)"
  by (simp add: eval_nat_numeral)

lemma rx_rep_4: "rx_rep 4 r = Seq r (Seq r (Seq r (Seq r Eps)))"
  by (simp add: eval_nat_numeral)

lemmas date_eval = date_confidence_def date_patterns_def try_parse_date_def strptime_def
  fmt_Ymd_def fmt_mdY_slash_def fmt_mdY_dash_def parse_Y_def parse_m_def parse_d_def
  two_chars_def one_char_def two_digits_def digit_between_def digit_val_def valid_date_def
  days_in_month_def is_leap_def re_match_anchored_def rx_rep_2 rx_rep_4 rx_eval char_eval

text \<open>
  The date sub-check on the values of the repository's test
  \<^verbatim>\<open>test_date_confidence\<close>, and on a partial date.
\<close>

lemma date_confidence_iso: "date_confidence (PStr ''2024-03-15'') = 0.9"
  by (simp add: date_eval)

lemma date_confidence_slash: "date_confidence (PStr ''03/15/2024'') = 0.9"
  by (simp add: date_eval)

lemma date_confidence_month_13: "date_confidence (PStr ''2024-13-45'') = 0.4"
  by (simp add: date_eval)

lemma date_confidence_no_date: "date_confidence (PStr ''invalid-date'') = 0.2"
  by (simp add: date_eval)

lemma date_confidence_partial: "date_confidence (PStr ''March 5, 2024'') = 0.6"
  by (simp add: date_eval)

text \<open>
  C1. For every field path, value, original text and optional model confidence (and
  whatever \<^verbatim>\<open>str\<close> makes of a value that is not a string), the score of
  \<open>calculate_field_confidence\<close> lies between 0 and 1, and it is 0 for the value
  \<^verbatim>\<open>None\<close>.
\<close>

theorem calculate_field_confidence_range:
  "0 \<le> calculate_field_confidence py_repr field_path v original gemini_confidence
   \<and> calculate_field_confidence py_repr field_path v original gemini_confidence \<le> 1
   \<and> calculate_field_confidence py_repr field_path PNone original gemini_confidence = 0"
  by (simp add: calculate_field_confidence_def Let_def)

theorem calculate_field_confidence_range_witness:
  "calculate_field_confidence (\<lambda>v. ''3'') ''x'' (PInt 3) [] (Some 5) = 1
   \<and> calculate_field_confidence (\<lambda>v. ''3'') ''x'' (PInt 3) [] (Some (- 2)) = 0
   \<and> calculate_field_confidence (\<lambda>v. ''3'') ''x'' (PInt 3) [] None = 0.25"
  using calculate_field_confidence_range [of "\<lambda>v. ''3''" "''x''" "PInt 3" "[]" "Some 5"]
  by (simp add: calculate_field_confidence_def calculate_heuristic_confidence_def
      text_presence_confidence_def format_confidence_def py_lower_def py_endswith_def
      py_str_def char_eval Let_def)

text \<open>
  C2. The value \<^verbatim>\<open>03-15-2024\<close> matches the third pattern, MM-DD-YYYY, and
  \<^verbatim>\<open>strptime\<close> with \<^verbatim>\<open>%m-%d-%Y\<close> parses it as 15 March 2024; but the date
  sub-check returns 0.4, not 0.9. Every value that matches one of the patterns has 10
  characters (or 11 with a final newline, which no format accepts), so a value with
  dashes is always parsed with \<^verbatim>\<open>%Y-%m-%d\<close>, and the branch for \<^verbatim>\<open>%m-%d-%Y\<close> is
  reached only by values it rejects.
\<close>

theorem date_confidence_month_first_dashes:
  "re_match_anchored (date_patterns ! 2) ''03-15-2024''
   \<and> strptime ''03-15-2024'' fmt_mdY_dash = Inr (2024, 3, 15)
   \<and> date_confidence (PStr ''03-15-2024'') = 0.4"
  by (simp add: date_eval)


subsection \<open>Validation\<close>

lemma then_step_None:
  "then_step a b r = (None, r') \<longleftrightarrow> (\<exists>m. a r = (None, m) \<and> b m = (None, r'))"
  by (auto simp: then_step_def split: prod.splits option.splits)

lemmas step_eval = then_step_def eval_then_def skip_def raise_def catch_def add_error_def
  add_warning_def set_field_validation_def bind_exc_def when_in_def

lemma py_float_overflow: "py_float fs (PInt (10 ^ 309)) = Inl OverflowError"
  by (simp add: py_float_def float_overflows_def)

lemma present_True:
  "present obj f = Inr True \<longleftrightarrow> (\<exists>d v. obj = PDict d \<and> map_of d f = Some v \<and> v \<noteq> PNone)"
  by (auto simp: present_def py_contains_def py_getitem_def bind_exc_def
      split: pyval.splits option.splits if_splits)

lemma present_dict:
  "present (PDict d) f = Inr (case map_of d f of Some v \<Rightarrow> v \<noteq> PNone | None \<Rightarrow> False)"
  by (auto simp: present_def py_contains_def py_getitem_def bind_exc_def split: option.splits)

lemma all_present3:
  "all_present obj [a, b, c] = Inr True \<longleftrightarrow>
   present obj a = Inr True \<and> present obj b = Inr True \<and> present obj c = Inr True"
  by (auto simp: bind_exc_def split: sum.splits if_splits)

lemma quiet_skip: "quiet skip"
  by (simp add: quiet_def skip_def)

lemma quiet_add_error: "quiet (add_error m)"
  by (simp add: quiet_def add_error_def)

lemma quiet_then: "quiet a \<Longrightarrow> quiet b \<Longrightarrow> quiet (then_step a b)"
proof -
  assume a: "quiet a" and b: "quiet b"
  show ?thesis
    unfolding quiet_def
  proof (intro allI)
    fix r
    obtain m where m: "a r = (None, m)" "warnings m = warnings r"
      using a unfolding quiet_def by (metis prod.collapse)
    obtain n where n: "b m = (None, n)" "warnings n = warnings m"
      using b unfolding quiet_def by (metis prod.collapse)
    show "fst (then_step a b r) = None \<and> warnings (snd (then_step a b r)) = warnings r"
      by (simp add: then_step_def m n)
  qed
qed

lemma quiet_for_each: "(\<And>x. x \<in> set xs \<Longrightarrow> quiet (body x)) \<Longrightarrow> quiet (for_each body xs)"
  by (induction xs) (auto simp: quiet_skip quiet_then)

lemma quiet_item_fields: "quiet (check_item_fields fs (PDict d) index)"
  unfolding check_item_fields_def
proof (rule quiet_for_each)
  fix field :: string
  show "quiet (eval_then (present (PDict d) field) (\<lambda>p.
            if \<not> p then add_error (ItemMissingField index field)
            else if field \<in> set [''quantity'', ''unit_price'', ''total'']
            then eval_then (py_getitem (PDict d) field) (\<lambda>v.
                   case validate_amount fs v of
                     None \<Rightarrow> skip
                   | Some error_msg \<Rightarrow> add_error (ItemFieldError index field error_msg))
            else skip))"
    by (cases "map_of d field")
      (auto simp: present_dict eval_then_def py_getitem_def quiet_skip quiet_add_error
        split: option.splits)
qed

text \<open>The body of the item's \<^verbatim>\<open>try\<close> raises the first exception of its conversions.\<close>

lemma item_total_check_raises:
  assumes "float_field fs item ''quantity'' = Inl e
         \<or> (float_field fs item ''quantity'' = Inr q
            \<and> float_field fs item ''unit_price'' = Inl e)
         \<or> (float_field fs item ''quantity'' = Inr q
            \<and> float_field fs item ''unit_price'' = Inr u
            \<and> float_field fs item ''total'' = Inl e)"
  shows "item_total_check fs item index r = (Some e, r)"
  using assms by (auto simp: item_total_check_def eval_then_def raise_def)

lemma invoice_item_silent:
  assumes ap: "all_present item [''quantity'', ''unit_price'', ''total''] = Inr True"
    and bad: "float_field fs item ''quantity'' = Inl e
         \<or> (float_field fs item ''quantity'' = Inr q
            \<and> float_field fs item ''unit_price'' = Inl e)
         \<or> (float_field fs item ''quantity'' = Inr q
            \<and> float_field fs item ''unit_price'' = Inr u
            \<and> float_field fs item ''total'' = Inl e)"
    and e: "e = ValueError \<or> e = TypeError"
  shows "fst (validate_invoice_item fs item index r) = None
       \<and> warnings (snd (validate_invoice_item fs item index r)) = warnings r"
proof -
  from ap [unfolded all_present3] obtain d where d: "item = PDict d"
    unfolding present_True by blast
  obtain m where m: "check_item_fields fs item index r = (None, m)" "warnings m = warnings r"
    using quiet_item_fields [of fs d index] unfolding quiet_def d by (metis prod.collapse)
  have "item_total_check fs item index m = (Some e, m)"
    using bad by (rule item_total_check_raises)
  then have "catch (item_total_check fs item index) [ValueError, TypeError] (\<lambda>e. skip) m
             = (None, m)"
    using e by (auto simp: catch_def skip_def)
  then have "validate_invoice_item fs item index r = (None, m)"
    unfolding validate_invoice_item_def steps.simps
    by (simp only: then_step_def m(1) ap eval_then_def skip_def
        prod.case option.case sum.case if_True)
  with m(2) show ?thesis by simp
qed

text \<open>An exception of the item's conversions that is no ValueError or TypeError is not caught.\<close>

lemma catch_totals:
  assumes "body r = (Some e, m)" and "e = ValueError \<or> e = TypeError"
  shows "catch body [ValueError, TypeError] (\<lambda>e. add_warning (CouldNotValidateTotals e)) r
         = (None, m\<lparr>warnings := warnings m @ [CouldNotValidateTotals e]\<rparr>)"
  using assms by (auto simp: catch_def add_warning_def)

lemma invoice_totals_no_items:
  assumes "list_field data ''items'' = Inr None"
  shows "validate_invoice_totals fs data r = (None, r)"
  using assms
  by (simp add: validate_invoice_totals_def invoice_totals_body_def eval_then_def skip_def
      catch_def)

lemma invoice_totals_warns:
  assumes items: "list_field data ''items'' = Inr (Some items)"
    and bad: "sum_item_totals fs items 0 = Inl e
            \<or> (sum_item_totals fs items 0 = Inr c
               \<and> present data ''subtotal'' = Inr True
               \<and> float_field fs data ''subtotal'' = Inl e)
            \<or> (sum_item_totals fs items 0 = Inr c
               \<and> all_present data [''subtotal'', ''tax_amount'', ''total_amount''] = Inr True
               \<and> float_field fs data ''subtotal'' = Inr s
               \<and> (float_field fs data ''tax_amount'' = Inl e
                  \<or> (float_field fs data ''tax_amount'' = Inr t
                     \<and> float_field fs data ''total_amount'' = Inl e)))"
    and e: "e = ValueError \<or> e = TypeError"
  shows "\<exists>ws. validate_invoice_totals fs data r
               = (None, r\<lparr>warnings := warnings r @ ws @ [CouldNotValidateTotals e]\<rparr>)"
proof -
  let ?three = "[''subtotal'', ''tax_amount'', ''total_amount'']"
  from bad consider
      (sum) "sum_item_totals fs items 0 = Inl e"
    | (subtotal) "sum_item_totals fs items 0 = Inr c" "present data ''subtotal'' = Inr True"
        "float_field fs data ''subtotal'' = Inl e"
    | (total) "sum_item_totals fs items 0 = Inr c" "all_present data ?three = Inr True"
        "float_field fs data ''subtotal'' = Inr s"
        "float_field fs data ''tax_amount'' = Inl e
         \<or> (float_field fs data ''tax_amount'' = Inr t
            \<and> float_field fs data ''total_amount'' = Inl e)"
    by blast
  then have "\<exists>ws. invoice_totals_body fs data r = (Some e, r\<lparr>warnings := warnings r @ ws\<rparr>)"
  proof cases
    case sum
    then have "invoice_totals_body fs data r = (Some e, r\<lparr>warnings := warnings r @ []\<rparr>)"
      by (simp add: invoice_totals_body_def items eval_then_def raise_def)
    then show ?thesis by blast
  next
    case subtotal
    then have "invoice_totals_body fs data r = (Some e, r\<lparr>warnings := warnings r @ []\<rparr>)"
      by (simp add: invoice_totals_body_def items eval_then_def raise_def then_step_def)
    then show ?thesis by blast
  next
    case total
    from total(2) [unfolded all_present3] have sub: "present data ''subtotal'' = Inr True"
      by blast
    define ws where "ws = (if \<bar>c - s\<bar> > 0.01 then [SubtotalMismatch c s] else [])"
    have first: "eval_then (present data ''subtotal'') (\<lambda>p.
              if p
              then eval_then (float_field fs data ''subtotal'') (\<lambda>stated_subtotal.
                     if \<bar>c - stated_subtotal\<bar> > 0.01
                     then add_warning (SubtotalMismatch c stated_subtotal)
                     else skip)
              else skip) r = (None, r\<lparr>warnings := warnings r @ ws\<rparr>)"
      by (simp add: sub total(3) eval_then_def add_warning_def skip_def ws_def)
    have second: "eval_then (all_present data ?three) (\<lambda>ok.
              if ok
              then eval_then (float_field fs data ''subtotal'') (\<lambda>subtotal.
                   eval_then (float_field fs data ''tax_amount'') (\<lambda>tax_amount.
                   eval_then (float_field fs data ''total_amount'') (\<lambda>actual_total.
                     let expected_total = subtotal + tax_amount
                     in if \<bar>expected_total - actual_total\<bar> > 0.01
                        then add_warning (TotalMismatch expected_total actual_total)
                        else skip)))
              else skip) m = (Some e, m)" for m
      using total(4)
      by (auto simp only: total(2) total(3) eval_then_def raise_def sum.case if_True)
    have "invoice_totals_body fs data r = (Some e, r\<lparr>warnings := warnings r @ ws\<rparr>)"
      unfolding invoice_totals_body_def steps.simps
      by (simp only: items total(1) eval_then_def [of "Inr v" for v] sum.case option.case
          then_step_def first second prod.case)
    then show ?thesis by blast
  qed
  then obtain ws where
    b: "invoice_totals_body fs data r = (Some e, r\<lparr>warnings := warnings r @ ws\<rparr>)"
    by blast
  have "validate_invoice_totals fs data r
        = (None, r\<lparr>warnings := warnings r @ ws @ [CouldNotValidateTotals e]\<rparr>)"
    unfolding validate_invoice_totals_def
    using catch_totals [of "invoice_totals_body fs data" r e
        "r\<lparr>warnings := warnings r @ ws\<rparr>", OF b e]
    by simp
  then show ?thesis by blast
qed

lemmas value_eval = py_contains_def py_getitem_def py_float_def float_overflows_def
  py_truthy_def present_def float_field_def list_field_def field_missing_def number_value_def
  py_strptime_def

lemma ex_date: "validate_date 2026 (PStr ''2024-03-15'') = None"
  by (simp add: validate_date_def date_formats_def py_strip_def date_eval)

lemma plain_decimal_na: "plain_decimal ''N/A'' = None"
  by (simp add: plain_decimal_def unsigned_decimal_def py_strip_def char_eval)

lemma plain_decimal_ten: "plain_decimal ''ten'' = None"
  by (simp add: plain_decimal_def unsigned_decimal_def py_strip_def char_eval)

lemma plain_decimal_abc: "plain_decimal ''abc'' = None"
  by (simp add: plain_decimal_def unsigned_decimal_def py_strip_def char_eval)

text \<open>
  The scenario of the specification: an item with quantity 10, unit price 150.0 and
  stated total 1400.0 gives a warning with the calculated total 1500 and leaves the
  invoice valid.
\<close>

lemma ex_invoice_run:
  "validate_document 2026 plain_decimal ex_invoice ''invoice''
   = \<lparr>is_valid = True, errors = [], warnings = [ItemTotalMismatch 0 1500 1400],
      field_validations =
        [(''date'', \<lparr>fv_is_valid = True, fv_value = PStr ''2024-03-15'', fv_type = ''date''\<rparr>),
         (''total_amount'', \<lparr>fv_is_valid = True, fv_value = PInt 1400, fv_type = ''amount''\<rparr>)]\<rparr>"
  unfolding validate_document_def validate_document_body_def validate_invoice_def
  by (simp add: check_required_fields_def validate_invoice_item_def check_item_fields_def
      item_total_check_def ex_date
      validate_field_type_def validation_rules_def validate_common_fields_def
      validate_invoice_totals_def invoice_totals_body_def ex_item_def
      ex_invoice_def step_eval value_eval validate_amount_def initial_result_def Let_def)

lemma ex_bad_subtotal_run:
  "validate_document 2026 plain_decimal ex_bad_subtotal ''invoice''
   = \<lparr>is_valid = False, errors = [FieldError ''subtotal'' (InvalidAmountFormat ''N/A'')],
      warnings = [CouldNotValidateTotals ValueError],
      field_validations =
        [(''date'', \<lparr>fv_is_valid = True, fv_value = PStr ''2024-03-15'', fv_type = ''date''\<rparr>),
         (''total_amount'', \<lparr>fv_is_valid = True, fv_value = PInt 100, fv_type = ''amount''\<rparr>),
         (''subtotal'', \<lparr>fv_is_valid = False, fv_value = PStr ''N/A'', fv_type = ''amount''\<rparr>)]\<rparr>"
  unfolding validate_document_def validate_document_body_def validate_invoice_def
  by (simp add: check_required_fields_def ex_date plain_decimal_na
      validate_field_type_def validation_rules_def validate_common_fields_def
      validate_invoice_totals_def invoice_totals_body_def amount_noise_def char_eval
      ex_bad_subtotal_def step_eval value_eval validate_amount_def initial_result_def Let_def)

lemma ex_bad_subtotal_totals:
  "validate_invoice_totals plain_decimal ex_bad_subtotal initial_result
   = (None, initial_result\<lparr>warnings := [CouldNotValidateTotals ValueError]\<rparr>)"
  by (simp add: validate_invoice_totals_def invoice_totals_body_def ex_bad_subtotal_def
      step_eval value_eval plain_decimal_na initial_result_def)

lemma ex_bad_item_run:
  "validate_invoice_item plain_decimal ex_bad_item 0 initial_result
   = (None, initial_result\<lparr>errors :=
        [ItemFieldError 0 ''quantity'' (InvalidAmountFormat ''ten'')]\<rparr>)"
  by (simp add: validate_invoice_item_def check_item_fields_def item_total_check_def
      ex_bad_item_def step_eval value_eval validate_amount_def amount_noise_def char_eval
      plain_decimal_ten initial_result_def Let_def)

lemma ex_overflow_item_run:
  "validate_invoice_item plain_decimal ex_overflow_item 0 initial_result
   = (Some OverflowError, initial_result\<lparr>errors :=
        [ItemFieldError 0 ''unit_price'' (InvalidAmountFormat ''abc'')]\<rparr>)"
  by (simp add: validate_invoice_item_def check_item_fields_def item_total_check_def
      ex_overflow_item_def step_eval value_eval validate_amount_def amount_noise_def char_eval
      plain_decimal_abc initial_result_def Let_def)

text \<open>
  C6, as stated, fails in two ways. First, the document-level check is not silent: in
  the invoice \<^verbatim>\<open>{"invoice_number": "INV-1", "date": "2024-03-15", "vendor": "ABC",
  "total_amount": 100, "subtotal": "N/A", "items": []}\<close> the subtotal is not numeric,
  \<^verbatim>\<open>float("N/A")\<close> raises ValueError in \<open>validate_invoice_totals\<close>, and its handler
  appends the warning \<^verbatim>\<open>Could not validate total calculations: ...\<close>, which is in the
  result of \<open>validate_document\<close>. Second, the exception is not always caught: in the
  item \<^verbatim>\<open>{"description": "x", "quantity": 2**1024, "unit_price": "abc", "total": 1}\<close>
  the unit price is not numeric, but \<^verbatim>\<open>float\<close> of the quantity raises OverflowError
  first, which \<^verbatim>\<open>except (ValueError, TypeError)\<close> does not catch: it leaves
  \<open>validate_invoice_item\<close>.
\<close>

theorem invoice_totals_warning_counterexample:
  "validate_invoice_totals plain_decimal ex_bad_subtotal initial_result
     = (None, initial_result\<lparr>warnings := [CouldNotValidateTotals ValueError]\<rparr>)
   \<and> warnings (validate_document 2026 plain_decimal ex_bad_subtotal ''invoice'')
     = [CouldNotValidateTotals ValueError]
   \<and> validate_invoice_item plain_decimal ex_overflow_item 0 initial_result
     = (Some OverflowError, initial_result\<lparr>errors :=
          [ItemFieldError 0 ''unit_price'' (InvalidAmountFormat ''abc'')]\<rparr>)"
  by (simp add: ex_bad_subtotal_totals ex_bad_subtotal_run ex_overflow_item_run)

text \<open>
  C6, amended. The conversions are made in the order of the source, and the first one
  that raises ends the check; \<open>e\<close> is what it raises, a ValueError or a TypeError (the
  value is not numeric).

  Item level: quantity, unit price and total are all present and not null, and the
  first conversion that raises (of the quantity, then the unit price, then the total)
  raises \<open>e\<close>. Then the check of quantity * unit price against the total is given up
  silently: the exception is caught and \<open>validate_invoice_item\<close> adds no warning.

  Document level, for a record with a list under \<^verbatim>\<open>items\<close>: the first conversion that
  raises (in the sum of the item totals, then of the stated subtotal when it is present
  and not null, then of subtotal, tax amount and total amount when all three are
  present and not null) raises \<open>e\<close>. Then the exception is caught as well, but not
  silently: \<open>validate_invoice_totals\<close> appends the warning
  \<^verbatim>\<open>Could not validate total calculations: ...\<close> as the last of its warnings.

  Document level, for a record without a list under \<^verbatim>\<open>items\<close>: neither document-level
  check is made, whatever the subtotal, tax amount and total amount are, and
  \<open>validate_invoice_totals\<close> changes nothing.
\<close>

theorem arithmetic_checks_non_numeric:
  "(all_present item [''quantity'', ''unit_price'', ''total''] = Inr True \<longrightarrow>
      (float_field fs item ''quantity'' = Inl e
       \<or> (float_field fs item ''quantity'' = Inr q
          \<and> float_field fs item ''unit_price'' = Inl e)
       \<or> (float_field fs item ''quantity'' = Inr q
          \<and> float_field fs item ''unit_price'' = Inr u
          \<and> float_field fs item ''total'' = Inl e)) \<longrightarrow>
      (e = ValueError \<or> e = TypeError) \<longrightarrow>
      fst (validate_invoice_item fs item index r) = None
      \<and> warnings (snd (validate_invoice_item fs item index r)) = warnings r)
   \<and> (list_field data ''items'' = Inr (Some items) \<longrightarrow>
      (sum_item_totals fs items 0 = Inl e
       \<or> (sum_item_totals fs items 0 = Inr c
          \<and> present data ''subtotal'' = Inr True
          \<and> float_field fs data ''subtotal'' = Inl e)
       \<or> (sum_item_totals fs items 0 = Inr c
          \<and> all_present data [''subtotal'', ''tax_amount'', ''total_amount''] = Inr True
          \<and> float_field fs data ''subtotal'' = Inr s
          \<and> (float_field fs data ''tax_amount'' = Inl e
             \<or> (float_field fs data ''tax_amount'' = Inr t
                \<and> float_field fs data ''total_amount'' = Inl e)))) \<longrightarrow>
      (e = ValueError \<or> e = TypeError) \<longrightarrow>
      (\<exists>ws. validate_invoice_totals fs data r
              = (None, r\<lparr>warnings := warnings r @ ws @ [CouldNotValidateTotals e]\<rparr>)))
   \<and> (list_field data ''items'' = Inr None \<longrightarrow> validate_invoice_totals fs data r = (None, r))"
proof -
  have item_level:
    "all_present item [''quantity'', ''unit_price'', ''total''] = Inr True \<longrightarrow>
      (float_field fs item ''quantity'' = Inl e
       \<or> (float_field fs item ''quantity'' = Inr q
          \<and> float_field fs item ''unit_price'' = Inl e)
       \<or> (float_field fs item ''quantity'' = Inr q
          \<and> float_field fs item ''unit_price'' = Inr u
          \<and> float_field fs item ''total'' = Inl e)) \<longrightarrow>
      (e = ValueError \<or> e = TypeError) \<longrightarrow>
      fst (validate_invoice_item fs item index r) = None
      \<and> warnings (snd (validate_invoice_item fs item index r)) = warnings r"
    by (intro impI) (rule invoice_item_silent)
  have document_level:
    "list_field data ''items'' = Inr (Some items) \<longrightarrow>
      (sum_item_totals fs items 0 = Inl e
       \<or> (sum_item_totals fs items 0 = Inr c
          \<and> present data ''subtotal'' = Inr True
          \<and> float_field fs data ''subtotal'' = Inl e)
       \<or> (sum_item_totals fs items 0 = Inr c
          \<and> all_present data [''subtotal'', ''tax_amount'', ''total_amount''] = Inr True
          \<and> float_field fs data ''subtotal'' = Inr s
          \<and> (float_field fs data ''tax_amount'' = Inl e
             \<or> (float_field fs data ''tax_amount'' = Inr t
                \<and> float_field fs data ''total_amount'' = Inl e)))) \<longrightarrow>
      (e = ValueError \<or> e = TypeError) \<longrightarrow>
      (\<exists>ws. validate_invoice_totals fs data r
              = (None, r\<lparr>warnings := warnings r @ ws @ [CouldNotValidateTotals e]\<rparr>))"
    by (intro impI) (rule invoice_totals_warns)
  have no_items:
    "list_field data ''items'' = Inr None \<longrightarrow> validate_invoice_totals fs data r = (None, r)"
    by (intro impI) (rule invoice_totals_no_items)
  show ?thesis by (rule conjI [OF item_level conjI [OF document_level no_items]])
qed

theorem arithmetic_checks_non_numeric_witness:
  "all_present ex_bad_item [''quantity'', ''unit_price'', ''total''] = Inr True
   \<and> float_field plain_decimal ex_bad_item ''quantity'' = Inl ValueError
   \<and> fst (validate_invoice_item plain_decimal ex_bad_item 0 initial_result) = None
   \<and> warnings (snd (validate_invoice_item plain_decimal ex_bad_item 0 initial_result)) = []
   \<and> list_field ex_bad_subtotal ''items'' = Inr (Some [])
   \<and> present ex_bad_subtotal ''subtotal'' = Inr True
   \<and> float_field plain_decimal ex_bad_subtotal ''subtotal'' = Inl ValueError
   \<and> (\<exists>ws. validate_invoice_totals plain_decimal ex_bad_subtotal initial_result
          = (None, initial_result\<lparr>warnings := warnings initial_result @ ws
                                                @ [CouldNotValidateTotals ValueError]\<rparr>))
   \<and> list_field ex_no_items ''items'' = Inr None
   \<and> validate_invoice_totals plain_decimal ex_no_items initial_result = (None, initial_result)"
  using arithmetic_checks_non_numeric [of ex_bad_item plain_decimal ValueError 0 0 0
      initial_result ex_bad_subtotal "[]" 0 0 0]
    arithmetic_checks_non_numeric [of ex_bad_item plain_decimal ValueError 0 0 0
      initial_result ex_no_items "[]" 0 0 0]
  by (auto simp add: ex_bad_item_def ex_bad_subtotal_def ex_no_items_def value_eval bind_exc_def
      plain_decimal_ten plain_decimal_na initial_result_def)

text \<open>
  C8. For every record (any Python value), document type, current year and string
  parser, the result of \<open>validate_document\<close> has \<open>is_valid\<close> true exactly when its list
  of errors is empty. The warnings do not enter: the invoice with the mismatching item
  total has a warning and is valid.
\<close>

theorem validate_document_valid_iff:
  "is_valid (validate_document current_year float_str data doc_type)
   \<longleftrightarrow> errors (validate_document current_year float_str data doc_type) = []"
proof (cases "validate_document_body current_year float_str data doc_type initial_result")
  case (Pair raised r)
  show ?thesis
  proof (cases raised)
    case None
    with Pair have "\<exists>m. r = m\<lparr>is_valid := (length (errors m) = 0)\<rparr>"
      unfolding validate_document_body_def
      by (auto simp: then_step_None skip_def)
    then obtain m where "r = m\<lparr>is_valid := (length (errors m) = 0)\<rparr>" ..
    with Pair None show ?thesis by (simp add: validate_document_def)
  next
    case (Some e)
    with Pair show ?thesis by (simp add: validate_document_def)
  qed
qed

theorem validate_document_valid_iff_witness:
  "is_valid (validate_document 2026 plain_decimal ex_invoice ''invoice'')
   \<and> errors (validate_document 2026 plain_decimal ex_invoice ''invoice'') = []
   \<and> warnings (validate_document 2026 plain_decimal ex_invoice ''invoice'')
       = [ItemTotalMismatch 0 1500 1400]
   \<and> \<not> is_valid (validate_document 2026 plain_decimal ex_bad_subtotal ''invoice'')
   \<and> errors (validate_document 2026 plain_decimal ex_bad_subtotal ''invoice'')
       = [FieldError ''subtotal'' (InvalidAmountFormat ''N/A'')]"
  using validate_document_valid_iff [of 2026 plain_decimal ex_invoice "''invoice''"]
    validate_document_valid_iff [of 2026 plain_decimal ex_bad_subtotal "''invoice''"]
  by (simp add: ex_invoice_run ex_bad_subtotal_run)

subsection \<open>The sub-checks and validators on the values of the repository's tests\<close>

text \<open>
  The values of \<^verbatim>\<open>tests/test_confidence.py\<close> and \<^verbatim>\<open>tests/test_validation.py\<close>, with
  the results the tests expect.
\<close>

lemma rx_rep_7: "rx_rep 7 r = Seq r (Seq r (Seq r (Seq r (Seq r (Seq r (Seq r Eps))))))"
  by (simp add: eval_nat_numeral)

lemma rx_rep_10:
  "rx_rep 10 r = Seq r (Seq r (Seq r (Seq r (Seq r (Seq r (Seq r (Seq r (Seq r (Seq r Eps)))))))))"
  by (simp add: eval_nat_numeral)

lemma rx_upto_2: "rx_upto 2 r = rx_opt (Seq r (rx_opt (Seq r Eps)))"
  by (simp add: eval_nat_numeral)

lemma rx_upto_8: "rx_upto 8 r = rx_opt (Seq r (rx_upto 7 r))"
  by (simp add: eval_nat_numeral)

lemmas class_eval = is_ascii_upper_def is_ascii_lower_def is_ascii_alpha_def is_ascii_alnum_def
  digit_or_comma_def id_char_def name_char_def email_local_char_def email_domain_char_def
  phone_separator_def amount_noise_def

lemma amount_tests:
  "amount_confidence (PFloat 150.50) = 0.85"
  "amount_confidence (PStr ''$1,500.00'') = 0.8"
  "amount_confidence (PFloat (- 50)) = 0.6"
  "amount_confidence (PStr ''not-a-number'') = 0.2"
  by (simp_all add: amount_confidence_def number_value_def currency_patterns_def py_strip_def
      re_match_anchored_def rx_upto_2 rx_eval char_eval class_eval)

lemma email_tests:
  "email_confidence (PStr ''test@example.com'') = 0.95"
  "email_confidence (PStr ''invalid-email'') = 0.2"
  "email_confidence (PStr ''test@'') = 0.2"
  by (simp_all add: email_confidence_def email_pattern_def re_match_anchored_def rx_eval
      char_eval class_eval)

lemma phone_tests:
  "phone_confidence (PStr ''(555) 123-4567'') = 0.9"
  "phone_confidence (PStr ''5551234567'') = 0.9"
  "phone_confidence (PStr ''123'') = 0.3"
  "phone_confidence (PStr ''not-a-phone'') = 0.3"
  by (simp_all add: phone_confidence_def clean_phone_def re_match_anchored_def rx_rep_7 rx_rep_10
      rx_upto_8 rx_eval char_eval class_eval)

lemma validator_tests:
  "validate_date 2026 (PStr ''03/15/2024'') = None"
  "validate_date 2026 (PStr ''invalid-date'') = Some (InvalidDateFormat ''invalid-date'')"
  "validate_date 2026 (PStr ''2024-13-45'') = Some (InvalidDateFormat ''2024-13-45'')"
  "validate_amount plain_decimal (PStr ''$1,500.00'') = None"
  "validate_amount plain_decimal (PFloat (- 50)) = Some AmountNegative"
  "validate_amount plain_decimal (PStr ''not-a-number'') = Some (InvalidAmountFormat ''not-a-number'')"
  "validate_email (PStr ''test@example.com'') = None"
  "validate_email (PStr ''invalid-email'') = Some (InvalidEmailFormat ''invalid-email'')"
  "validate_currency (PStr ''usd'') = None"
  "validate_currency (PStr ''INVALID'') = Some (UnknownCurrency ''INVALID'')"
  by (simp_all add: validate_date_def date_formats_def fmt_dmY_slash_def fmt_dmY_dash_def
      py_strip_def date_eval validate_amount_def number_value_def plain_decimal_def
      unsigned_decimal_def validate_email_def email_pattern_def validate_currency_def
      valid_currencies_def py_upper_def py_upper_char_def class_eval)

subsection \<open>Low-confidence fields\<close>

text \<open>
  C7. For every mapping of field paths to scores and every threshold, the result of
  \<open>identify_low_confidence_fields\<close> holds exactly the (path, score) items whose score is
  strictly below the threshold (with their multiplicity, so nothing is added, lost or
  repeated), it is sorted in ascending order of score, and no item whose score equals
  the threshold is in it. The default threshold is 0.7.
\<close>

theorem identify_low_confidence_fields_exact_sorted:
  "mset (identify_low_confidence_fields thr fc) = filter_mset (\<lambda>p. snd p < thr) (mset fc)
   \<and> set (identify_low_confidence_fields thr fc) = {p. p \<in> set fc \<and> snd p < thr}
   \<and> sorted (map snd (identify_low_confidence_fields thr fc))
   \<and> (f, thr) \<notin> set (identify_low_confidence_fields thr fc)
   \<and> default_low_confidence_threshold = 0.7"
proof -
  have sel: "(\<lambda>(field, confidence). confidence < thr) = (\<lambda>p::string \<times> real. snd p < thr)"
    by (simp add: fun_eq_iff split_beta)
  show ?thesis
    unfolding identify_low_confidence_fields_def sel default_low_confidence_threshold_def
    by auto
qed

theorem identify_low_confidence_fields_witness:
  "identify_low_confidence_fields default_low_confidence_threshold
     [(''high'', 0.9), (''med'', 0.7), (''low1'', 0.6), (''low2'', 0.5)]
   = [(''low2'', 0.5), (''low1'', 0.6)]
   \<and> sorted (map snd (identify_low_confidence_fields default_low_confidence_threshold
        [(''high'', 0.9), (''med'', 0.7), (''low1'', 0.6), (''low2'', 0.5)]))"
  using identify_low_confidence_fields_exact_sorted
    [of default_low_confidence_threshold
        "[(''high'', 0.9), (''med'', 0.7), (''low1'', 0.6), (''low2'', 0.5)]" "''med''"]
  by (simp add: identify_low_confidence_fields_def default_low_confidence_threshold_def)

end
